theory Spec2Isabelle
  imports Complex_Main "HOL-Library.Sublist"
begin

section \<open>Python values\<close>

text \<open>
  A Python \<open>str\<close> is a sequence of Unicode code points, so it is modelled as a list of
  natural numbers; \<open>u\<close> turns an ASCII literal into such a list.  The micro sign is
  code point 181 (U+00B5), the capital omega 937 (U+03A9).
\<close>

type_synonym pystr = "nat list"

definition u :: "string \<Rightarrow> pystr" where
  "u cs = map of_char cs"

text \<open>
  The scalar values of a table cell: \<open>str\<close>, \<open>int\<close>, \<open>bool\<close> and \<open>None\<close>.  Cells holding
  a \<open>float\<close> are not part of the model (their \<open>str()\<close> is the shortest-repr algorithm of
  the interpreter).
\<close>

datatype pyval = PStr pystr | PInt int | PBool bool | PNone

datatype py_error = ValueError | TypeError | OverflowError | ZeroDivisionError | UnboundLocalError

subsection \<open>\<open>str.replace\<close>, \<open>str.lower\<close>, \<open>str.strip\<close>, \<open>str()\<close>\<close>

text \<open>
  \<open>s.replace(old, new)\<close> rewrites the non-overlapping occurrences of \<open>old\<close> from the left;
  with an empty \<open>old\<close> it puts \<open>new\<close> before every code point and at the end.
\<close>

function py_replace :: "pystr \<Rightarrow> pystr \<Rightarrow> pystr \<Rightarrow> pystr" where
  "py_replace old new [] = (if old = [] then new else [])"
| "py_replace old new (c # cs) =
     (if old = [] then new @ c # py_replace old new cs
      else if prefix old (c # cs) then new @ py_replace old new (drop (length old) (c # cs))
      else c # py_replace old new cs)"
  by pat_completeness auto
termination
  by (relation "measure (\<lambda>(old, new, s). length s)") auto

text \<open>
  Two tables of Python's Unicode database decide what the program does with text beyond
  ASCII: the case mapping behind \<open>str.lower\<close>, and the decimal digits (category Nd)
  with their values, behind \<open>\d\<close> and \<open>float()\<close>.  The tables are not written out
  here: they are a parameter \<open>ucd\<close> of the model, and what is proved holds for every
  value of it.  \<open>db_lower\<close> is \<open>str.lower\<close> on a string that has a code point beyond
  ASCII, \<open>db_decimal\<close> the digit value of a code point beyond ASCII.
\<close>

record unicode_db =
  db_lower :: "pystr \<Rightarrow> pystr"
  db_decimal :: "nat \<Rightarrow> nat option"

definition is_ascii :: "pystr \<Rightarrow> bool" where
  "is_ascii s = list_all (\<lambda>c. c < 128) s"

text \<open>
  On a string of ASCII characters \<open>str.lower\<close> maps the letters A to Z and nothing else.
\<close>

definition lower_char :: "nat \<Rightarrow> nat" where
  "lower_char c = (if 65 \<le> c \<and> c \<le> 90 then c + 32 else c)"

definition ascii_lower :: "pystr \<Rightarrow> pystr" where
  "ascii_lower s = map lower_char s"

definition py_lower :: "unicode_db \<Rightarrow> pystr \<Rightarrow> pystr" where
  "py_lower ucd s = (if is_ascii s then ascii_lower s else db_lower ucd s)"

text \<open>
  The value of a decimal digit, \<open>None\<close> for any other code point; in ASCII the digits
  are 0 to 9.
\<close>

definition decimal_value :: "unicode_db \<Rightarrow> nat \<Rightarrow> nat option" where
  "decimal_value ucd c =
     (if c < 128 then (if 48 \<le> c \<and> c \<le> 57 then Some (c - 48) else None)
      else db_decimal ucd c)"

text \<open>
  A database that knows no character beyond ASCII.  It stands for the parameter in the
  closed instances below, whose text is ASCII (or becomes ASCII by the Normalizer's
  replacements) and whose results are the same for every database.
\<close>

definition ascii_db :: unicode_db where
  "ascii_db = \<lparr>db_lower = ascii_lower, db_decimal = (\<lambda>c. None)\<rparr>"

text \<open>The code points for which \<open>str.isspace\<close> holds; \<open>str.strip()\<close> removes them at both ends.\<close>

definition is_space :: "nat \<Rightarrow> bool" where
  "is_space c \<longleftrightarrow>
     (9 \<le> c \<and> c \<le> 13) \<or> (28 \<le> c \<and> c \<le> 32) \<or> c = 133 \<or> c = 160 \<or> c = 5760 \<or>
     (8192 \<le> c \<and> c \<le> 8202) \<or> c = 8232 \<or> c = 8233 \<or> c = 8239 \<or> c = 8287 \<or> c = 12288"

definition py_strip :: "pystr \<Rightarrow> pystr" where
  "py_strip s = rev (dropWhile is_space (rev (dropWhile is_space s)))"

text \<open>Decimal rendering of an \<open>int\<close>, as \<open>str()\<close> gives it.\<close>

function dec_digits :: "nat \<Rightarrow> pystr" where
  "dec_digits n = (if n < 10 then [48 + n] else dec_digits (n div 10) @ [48 + n mod 10])"
  by pat_completeness auto
termination
  by (relation "measure id") auto

declare dec_digits.simps [simp del]

definition py_str :: "pyval \<Rightarrow> pystr" where
  "py_str v =
     (case v of
        PStr s \<Rightarrow> s
      | PInt i \<Rightarrow> (if i < 0 then 45 # dec_digits (nat (- i)) else dec_digits (nat i))
      | PBool b \<Rightarrow> (if b then u ''True'' else u ''False'')
      | PNone \<Rightarrow> u ''None'')"

section \<open>Normalizer\<close>

text \<open>
  \<^verbatim>\<open>
  def normalize_units(value):
      if isinstance(value, str):
          value = value.replace(MICRO, "u").replace(OMEGA, "ohm").replace("k", "000").lower()
      return str(value).strip()
  \<close>
\<close>

definition normalize_units :: "unicode_db \<Rightarrow> pyval \<Rightarrow> pystr" where
  "normalize_units ucd v0 =
     (let v = (case v0 of
                 PStr s \<Rightarrow>
                   PStr (py_lower ucd (py_replace (u ''k'') (u ''000'')
                          (py_replace [937] (u ''ohm'') (py_replace [181] (u ''u'') s))))
               | _ \<Rightarrow> v0)
      in py_strip (py_str v))"

section \<open>Python floats\<close>

text \<open>
  A \<open>float\<close> is an IEEE 754 binary64 value: a finite one is the rational number it stands
  for, and there are the two infinities and NaN.  The two zeros are one value here: the
  program only subtracts, divides and compares, and Python raises on a division by either
  zero.
\<close>

datatype pyfloat = Fin rat | PInf | NInf | NaN

text \<open>
  \<open>fl\<close> rounds a rational to the nearest binary64 value, ties to even: the result of every
  arithmetic operation and of every conversion is the exact result rounded this way.
  \<open>ilog2 a\<close> is the binary exponent of a positive \<open>a\<close>, that is \<open>2^e \<le> a < 2^(e+1)\<close>.
\<close>

function scale_up :: "rat \<Rightarrow> int \<Rightarrow> int" where
  "scale_up a e = (if 2 \<le> a then scale_up (a / 2) (e + 1) else e)"
  by pat_completeness auto
termination
proof (relation "measure (\<lambda>(a, e). nat \<lfloor>a\<rfloor>)")
  show "wf (measure (\<lambda>(a, e). nat \<lfloor>a\<rfloor>))" by simp
next
  fix a :: rat and e :: int
  assume a: "2 \<le> a"
  have "a / 2 \<le> a - 1" using a by simp
  then have "\<lfloor>a / 2\<rfloor> \<le> \<lfloor>a - 1\<rfloor>" by (rule floor_mono)
  moreover have "2 \<le> \<lfloor>a\<rfloor>" using a by (simp add: le_floor_iff)
  ultimately show "((a / 2, e + 1), (a, e)) \<in> measure (\<lambda>(a, e). nat \<lfloor>a\<rfloor>)"
    by simp
qed

function scale_down :: "rat \<Rightarrow> int \<Rightarrow> int" where
  "scale_down a e = (if 0 < a \<and> a < 1 then scale_down (a * 2) (e - 1) else e)"
  by pat_completeness auto
termination
proof (relation "measure (\<lambda>(a, e). nat \<lfloor>1 / a\<rfloor>)")
  show "wf (measure (\<lambda>(a, e). nat \<lfloor>1 / a\<rfloor>))" by simp
next
  fix a :: rat and e :: int
  assume a: "0 < a \<and> a < 1"
  then have one: "1 \<le> 1 / a" by simp
  have "1 / (a * 2) = (1 / a) / 2" by simp
  also have "\<dots> \<le> 1 / a - 1 / 2" using one by simp
  finally have le: "1 / (a * 2) \<le> 1 / a - 1 / 2" .
  have pos: "1 \<le> \<lfloor>1 / a\<rfloor>" using one by (simp add: le_floor_iff)
  have "\<lfloor>1 / (a * 2)\<rfloor> < \<lfloor>1 / a\<rfloor>"
  proof (cases "2 \<le> 1 / a")
    case True
    then have "1 / (a * 2) \<le> 1 / a - 1" by simp
    then have "\<lfloor>1 / (a * 2)\<rfloor> \<le> \<lfloor>1 / a - 1\<rfloor>" by (rule floor_mono)
    then show ?thesis by simp
  next
    case False
    then have "1 / (a * 2) < 1" by simp
    moreover have "0 \<le> 1 / (a * 2)" using a by simp
    ultimately have "\<lfloor>1 / (a * 2)\<rfloor> = 0" by (simp add: floor_eq_iff)
    with pos show ?thesis by simp
  qed
  with pos have "nat \<lfloor>1 / (a * 2)\<rfloor> < nat \<lfloor>1 / a\<rfloor>" by arith
  then show "((a * 2, e - 1), (a, e)) \<in> measure (\<lambda>(a, e). nat \<lfloor>1 / a\<rfloor>)"
    by (simp del: floor_divide_eq_div_numeral)
qed

declare scale_up.simps [simp del] scale_down.simps [simp del]

definition ilog2 :: "rat \<Rightarrow> int" where
  "ilog2 a = (if 1 \<le> a then scale_up a 0 else scale_down a 0)"

definition pow2 :: "int \<Rightarrow> rat" where
  "pow2 p = (if 0 \<le> p then 2 ^ nat p else 1 / 2 ^ nat (- p))"

definition round_half_even :: "rat \<Rightarrow> int" where
  "round_half_even x =
     (let f = \<lfloor>x\<rfloor>; d = x - of_int f
      in if d < 1 / 2 then f else if 1 / 2 < d then f + 1 else if even f then f else f + 1)"

text \<open>
  \<open>fl_exp a\<close> is the exponent of the last mantissa bit for a magnitude \<open>a\<close> (52 bits below
  the leading one, and not below the subnormal exponent -1074); \<open>round_to p a\<close> rounds \<open>a\<close>
  to a multiple of \<open>2^p\<close>.  A magnitude that rounds to \<open>2^1024\<close> or more overflows to an
  infinity.
\<close>

definition fl_exp :: "rat \<Rightarrow> int" where
  "fl_exp a = max (ilog2 a - 52) (- 1074)"

definition round_to :: "int \<Rightarrow> rat \<Rightarrow> rat" where
  "round_to p a = of_int (round_half_even (a / pow2 p)) * pow2 p"

definition fl :: "rat \<Rightarrow> pyfloat" where
  "fl q =
     (if q = 0 then Fin 0
      else if 2 ^ 1024 \<le> round_to (fl_exp \<bar>q\<bar>) \<bar>q\<bar> then (if q < 0 then NInf else PInf)
      else Fin (if q < 0 then - round_to (fl_exp \<bar>q\<bar>) \<bar>q\<bar>
                else round_to (fl_exp \<bar>q\<bar>) \<bar>q\<bar>))"

text \<open>Subtraction, \<open>abs\<close>, true division and \<open>\<le>\<close> on floats.\<close>

fun fsub :: "pyfloat \<Rightarrow> pyfloat \<Rightarrow> pyfloat" where
  "fsub NaN y = NaN"
| "fsub x NaN = NaN"
| "fsub (Fin a) (Fin b) = fl (a - b)"
| "fsub (Fin a) PInf = NInf"
| "fsub (Fin a) NInf = PInf"
| "fsub PInf PInf = NaN"
| "fsub PInf y = PInf"
| "fsub NInf NInf = NaN"
| "fsub NInf y = NInf"

fun fabs :: "pyfloat \<Rightarrow> pyfloat" where
  "fabs (Fin a) = Fin \<bar>a\<bar>"
| "fabs PInf = PInf"
| "fabs NInf = PInf"
| "fabs NaN = NaN"

fun fdiv :: "pyfloat \<Rightarrow> pyfloat \<Rightarrow> py_error + pyfloat" where
  "fdiv x (Fin b) =
     (if b = 0 then Inl ZeroDivisionError
      else case x of
             Fin a \<Rightarrow> Inr (fl (a / b))
           | PInf \<Rightarrow> Inr (if 0 < b then PInf else NInf)
           | NInf \<Rightarrow> Inr (if 0 < b then NInf else PInf)
           | NaN \<Rightarrow> Inr NaN)"
| "fdiv x NaN = Inr NaN"
| "fdiv (Fin a) y = Inr (Fin 0)"
| "fdiv x y = Inr NaN"

fun fle :: "pyfloat \<Rightarrow> pyfloat \<Rightarrow> bool" where
  "fle NaN y = False"
| "fle x NaN = False"
| "fle (Fin a) (Fin b) = (a \<le> b)"
| "fle NInf y = True"
| "fle x PInf = True"
| "fle x y = False"

subsection \<open>\<open>float()\<close>\<close>

text \<open>
  \<open>float(s)\<close> on a string first brings a string that is not ASCII to ASCII: a code point
  below 127 stays, white space becomes a blank, a decimal digit becomes the ASCII digit
  of its value, and at any other code point the text ends with a question mark.
\<close>

fun to_ascii_decimal :: "unicode_db \<Rightarrow> pystr \<Rightarrow> pystr" where
  "to_ascii_decimal ucd [] = []"
| "to_ascii_decimal ucd (c # cs) =
     (if c < 127 then c # to_ascii_decimal ucd cs
      else if is_space c then 32 # to_ascii_decimal ucd cs
      else case decimal_value ucd c of
             Some d \<Rightarrow> (48 + d) # to_ascii_decimal ucd cs
           | None \<Rightarrow> [63])"

definition float_text :: "unicode_db \<Rightarrow> pystr \<Rightarrow> pystr" where
  "float_text ucd s = (if is_ascii s then s else to_ascii_decimal ucd s)"

definition ascii_digit :: "nat \<Rightarrow> bool" where
  "ascii_digit c \<longleftrightarrow> 48 \<le> c \<and> c \<le> 57"

definition digits_value :: "pystr \<Rightarrow> nat" where
  "digits_value ds = foldl (\<lambda>acc c. 10 * acc + (c - 48)) 0 ds"

text \<open>
  An underscore is accepted only between two digits; \<open>prev\<close> is the code point before
  (0 at the start).
\<close>

fun underscores_ok :: "nat \<Rightarrow> pystr \<Rightarrow> bool" where
  "underscores_ok prev [] = (prev \<noteq> 95)"
| "underscores_ok prev (c # cs) =
     (if c = 95 then ascii_digit prev \<and> underscores_ok c cs
      else (prev = 95 \<longrightarrow> ascii_digit c) \<and> underscores_ok c cs)"

text \<open>The white space of C, which is skipped at both ends of the ASCII text.\<close>

definition c_space :: "nat \<Rightarrow> bool" where
  "c_space c \<longleftrightarrow> (9 \<le> c \<and> c \<le> 13) \<or> c = 32"

definition split_sign :: "pystr \<Rightarrow> bool \<times> pystr" where
  "split_sign s =
     (case s of
        [] \<Rightarrow> (False, [])
      | c # cs \<Rightarrow> if c = 45 then (True, cs) else if c = 43 then (False, cs) else (False, s))"

text \<open>
  A decimal numeral: digits with an optional point, at least one digit, and an optional
  exponent, which needs a digit.  The result is the exact value.
\<close>

definition parse_decimal :: "pystr \<Rightarrow> rat option" where
  "parse_decimal r =
     (let ip = takeWhile ascii_digit r;
          r1 = dropWhile ascii_digit r;
          fp = (case r1 of c # cs \<Rightarrow> if c = 46 then takeWhile ascii_digit cs else [] | [] \<Rightarrow> []);
          r2 = (case r1 of c # cs \<Rightarrow> if c = 46 then dropWhile ascii_digit cs else r1 | [] \<Rightarrow> []);
          mant = of_nat (digits_value (ip @ fp)) / 10 ^ length fp
      in if ip = [] \<and> fp = [] then None
         else case r2 of
                [] \<Rightarrow> Some mant
              | c # cs \<Rightarrow>
                  if c = 101 \<or> c = 69 then
                    (let (eneg, ds) = split_sign cs
                     in if ds \<noteq> [] \<and> list_all ascii_digit ds
                        then Some (if eneg then mant / 10 ^ digits_value ds
                                   else mant * 10 ^ digits_value ds)
                        else None)
                  else None)"

text \<open>
  The ASCII text is then read: the underscores checked and dropped, the white space at
  the ends skipped, a sign taken, and the rest is \<open>inf\<close>, \<open>infinity\<close> or \<open>nan\<close> in any
  case of the ASCII letters, or a decimal numeral, which is rounded.
\<close>

definition float_of_str :: "unicode_db \<Rightarrow> pystr \<Rightarrow> py_error + pyfloat" where
  "float_of_str ucd s =
     (if \<not> underscores_ok 0 (float_text ucd s) then Inl ValueError
      else let t = filter (\<lambda>c. c \<noteq> 95) (float_text ucd s);
               t = rev (dropWhile c_space (rev (dropWhile c_space t)));
               (neg, r) = split_sign t;
               w = ascii_lower r
           in if w = u ''inf'' \<or> w = u ''infinity'' then Inr (if neg then NInf else PInf)
              else if w = u ''nan'' then Inr NaN
              else case parse_decimal r of
                     None \<Rightarrow> Inl ValueError
                   | Some q \<Rightarrow> Inr (fl (if neg then - q else q)))"

text \<open>
  \<open>float(x)\<close>: a string is parsed, an \<open>int\<close> is rounded (and is an \<open>OverflowError\<close> when it
  is out of range), a \<open>bool\<close> is 1.0 or 0.0, \<open>None\<close> is a \<open>TypeError\<close>.
\<close>

definition py_float :: "unicode_db \<Rightarrow> pyval \<Rightarrow> py_error + pyfloat" where
  "py_float ucd v =
     (case v of
        PStr s \<Rightarrow> float_of_str ucd s
      | PInt i \<Rightarrow> (case fl (of_int i) of Fin q \<Rightarrow> Inr (Fin q) | _ \<Rightarrow> Inl OverflowError)
      | PBool b \<Rightarrow> Inr (Fin (if b then 1 else 0))
      | PNone \<Rightarrow> Inl TypeError)"

section \<open>Tolerance Comparator\<close>

text \<open>
  \<^verbatim>\<open>
  def within_tolerance(expected, actual, tolerance=0.05):
      try:
          expected_val = float(expected)
          actual_val = float(actual)
          return abs(expected_val - actual_val) / expected_val <= tolerance
      except:
          return False
  \<close>
  \<open>within_tolerance_try\<close> is the body of the \<open>try\<close>, where an exception is a value;
  \<open>within_tolerance\<close> adds the handler.  Its result keeps the type of a call that
  could raise, so that "it does not raise" is a statement about it.
\<close>

definition within_tolerance_try ::
  "unicode_db \<Rightarrow> pyval \<Rightarrow> pyval \<Rightarrow> pyfloat \<Rightarrow> py_error + bool" where
  "within_tolerance_try ucd expected actual tolerance =
     (case py_float ucd expected of
        Inl e \<Rightarrow> Inl e
      | Inr expected_val \<Rightarrow>
          (case py_float ucd actual of
             Inl e \<Rightarrow> Inl e
           | Inr actual_val \<Rightarrow>
               (case fdiv (fabs (fsub expected_val actual_val)) expected_val of
                  Inl e \<Rightarrow> Inl e
                | Inr r \<Rightarrow> Inr (fle r tolerance))))"

definition within_tolerance ::
  "unicode_db \<Rightarrow> pyval \<Rightarrow> pyval \<Rightarrow> pyfloat \<Rightarrow> py_error + bool" where
  "within_tolerance ucd expected actual tolerance =
     (case within_tolerance_try ucd expected actual tolerance of
        Inl e \<Rightarrow> Inr False
      | Inr b \<Rightarrow> Inr b)"

definition default_tolerance :: pyfloat where
  "default_tolerance = fl (1 / 20)"

section \<open>Matcher\<close>

text \<open>
  A record (one row of a table, one specification, the user's requirements) is a Python
  \<open>dict\<close> with string keys: an association list in insertion order, its keys distinct.
  \<open>d.get(k, default)\<close> is \<open>dict_get\<close>; \<open>for k in d\<close> with \<open>d[k]\<close> walks the pairs.
\<close>

type_synonym pydict = "(pystr \<times> pyval) list"

definition dict_get :: "pydict \<Rightarrow> pystr \<Rightarrow> pyval \<Rightarrow> pyval" where
  "dict_get d k dflt = (case map_of d k of None \<Rightarrow> dflt | Some v \<Rightarrow> v)"

text \<open>\<open>re.search(r"\d", s)\<close>: on a \<open>str\<close>, \<open>\d\<close> matches every decimal digit.\<close>

definition has_digit :: "unicode_db \<Rightarrow> pystr \<Rightarrow> bool" where
  "has_digit ucd s = list_ex (\<lambda>c. decimal_value ucd c \<noteq> None) s"

text \<open>\<open>sep.join(xs)\<close>\<close>

fun py_join :: "pystr \<Rightarrow> pystr list \<Rightarrow> pystr" where
  "py_join sep [] = []"
| "py_join sep [x] = x"
| "py_join sep (x # y # ys) = x @ sep @ py_join sep (y # ys)"

text \<open>
  \<^verbatim>\<open>
  def match_component_to_spec(component_data, sae_specs, user_inputs):
      for spec in sae_specs:
          match = True
          reasons = []
          for key in user_inputs:
              spec_val = normalize_units(spec.get(key, ""))
              comp_val = normalize_units(component_data.get(key, ""))
              user_val = normalize_units(user_inputs[key])

              if not comp_val or not spec_val:
                  match = False
                  reasons.append(f"Missing key: {key} in component or spec.")
                  continue

              if spec_val != user_val:
                  match = False
                  reasons.append(f"Mismatch: user required {key} = {user_val}, SAE has {spec_val}")

              if re.search(r"\d", comp_val) and re.search(r"\d", spec_val):
                  if not within_tolerance(spec_val, comp_val):
                      match = False
                      reasons.append(f"Out of tolerance: {key} component={comp_val} spec={spec_val}")

          if match:
              return True, f"Component matches SAE specification: {spec.get('id', 'N/A')}"
      return False, f"No SAE spec match found. Issues: {'; '.join(reasons)}"
  \<close>
  \<open>check_key\<close> is one pass of the inner loop body on the state \<open>(match, reasons)\<close>,
  \<open>check_keys\<close> the inner loop, \<open>spec_check\<close> the inner loop from its initial state
  \<open>(True, [])\<close>, and \<open>match_loop\<close> the outer loop.  The last argument of \<open>match_loop\<close> is the
  variable \<open>reasons\<close> as the code after the loop finds it: \<open>None\<close> while it is unbound
  (no iteration has run), otherwise the list of the latest iteration.
\<close>

definition check_key ::
  "unicode_db \<Rightarrow> pydict \<Rightarrow> pydict \<Rightarrow> pystr \<times> pyval \<Rightarrow> bool \<times> pystr list \<Rightarrow> py_error + (bool \<times> pystr list)" where
  "check_key ucd component_data spec kv st =
     (let key = fst kv;
          spec_val = normalize_units ucd (dict_get spec key (PStr []));
          comp_val = normalize_units ucd (dict_get component_data key (PStr []));
          user_val = normalize_units ucd (snd kv)
      in if comp_val = [] \<or> spec_val = [] then
           Inr (False, snd st @ [u ''Missing key: '' @ key @ u '' in component or spec.''])
         else
           let st1 = (if spec_val \<noteq> user_val
                      then (False, snd st @ [u ''Mismatch: user required '' @ key @ u '' = '' @ user_val
                                              @ u '', SAE has '' @ spec_val])
                      else st)
           in if has_digit ucd comp_val \<and> has_digit ucd spec_val then
                (case within_tolerance ucd (PStr spec_val) (PStr comp_val) default_tolerance of
                   Inl e \<Rightarrow> Inl e
                 | Inr ok \<Rightarrow>
                     if \<not> ok
                     then Inr (False, snd st1 @ [u ''Out of tolerance: '' @ key @ u '' component=''
                                                  @ comp_val @ u '' spec='' @ spec_val])
                     else Inr st1)
              else Inr st1)"

fun check_keys ::
  "unicode_db \<Rightarrow> pydict \<Rightarrow> pydict \<Rightarrow> pydict \<Rightarrow> bool \<times> pystr list \<Rightarrow> py_error + (bool \<times> pystr list)" where
  "check_keys ucd component_data spec [] st = Inr st"
| "check_keys ucd component_data spec (kv # kvs) st =
     (case check_key ucd component_data spec kv st of
        Inl e \<Rightarrow> Inl e
      | Inr st' \<Rightarrow> check_keys ucd component_data spec kvs st')"

definition spec_check :: "unicode_db \<Rightarrow> pydict \<Rightarrow> pydict \<Rightarrow> pydict \<Rightarrow> py_error + (bool \<times> pystr list)" where
  "spec_check ucd component_data spec user_inputs = check_keys ucd component_data spec user_inputs (True, [])"

fun match_loop ::
  "unicode_db \<Rightarrow> pydict \<Rightarrow> pydict list \<Rightarrow> pydict \<Rightarrow> pystr list option \<Rightarrow> py_error + (bool \<times> pystr)" where
  "match_loop ucd component_data [] user_inputs reasons =
     (case reasons of
        None \<Rightarrow> Inl UnboundLocalError
      | Some rs \<Rightarrow> Inr (False, u ''No SAE spec match found. Issues: '' @ py_join (u ''; '') rs))"
| "match_loop ucd component_data (spec # specs) user_inputs reasons =
     (case spec_check ucd component_data spec user_inputs of
        Inl e \<Rightarrow> Inl e
      | Inr (match, rs) \<Rightarrow>
          if match
          then Inr (True, u ''Component matches SAE specification: ''
                            @ py_str (dict_get spec (u ''id'') (PStr (u ''N/A''))))
          else match_loop ucd component_data specs user_inputs (Some rs))"

definition match_component_to_spec ::
  "unicode_db \<Rightarrow> pydict \<Rightarrow> pydict list \<Rightarrow> pydict \<Rightarrow> py_error + (bool \<times> pystr)" where
  "match_component_to_spec ucd component_data sae_specs user_inputs =
     match_loop ucd component_data sae_specs user_inputs None"

text \<open>
  Reading the inner loop's result for one specification: whether it was accepted, and the
  reasons recorded for it.
\<close>

definition spec_accepted :: "unicode_db \<Rightarrow> pydict \<Rightarrow> pydict \<Rightarrow> pydict \<Rightarrow> bool" where
  "spec_accepted ucd component_data spec user_inputs =
     (case spec_check ucd component_data spec user_inputs of Inl e \<Rightarrow> False | Inr st \<Rightarrow> fst st)"

definition spec_reasons :: "unicode_db \<Rightarrow> pydict \<Rightarrow> pydict \<Rightarrow> pydict \<Rightarrow> pystr list" where
  "spec_reasons ucd component_data spec user_inputs =
     (case spec_check ucd component_data spec user_inputs of Inl e \<Rightarrow> [] | Inr st \<Rightarrow> snd st)"

text \<open>
  The checks of one requirement field, as a condition: both values present, the
  specification's value equal to the required one, and the comparator's verdict where
  both values contain a digit.
\<close>

definition field_ok :: "unicode_db \<Rightarrow> pydict \<Rightarrow> pydict \<Rightarrow> pystr \<times> pyval \<Rightarrow> bool" where
  "field_ok ucd component_data spec kv =
     (let spec_val = normalize_units ucd (dict_get spec (fst kv) (PStr []));
          comp_val = normalize_units ucd (dict_get component_data (fst kv) (PStr []))
      in comp_val \<noteq> [] \<and> spec_val \<noteq> [] \<and> spec_val = normalize_units ucd (snd kv) \<and>
         (if has_digit ucd comp_val \<and> has_digit ucd spec_val
          then within_tolerance ucd (PStr spec_val) (PStr comp_val) default_tolerance = Inr True
          else True))"

section \<open>Alternative Suggester\<close>

text \<open>
  \<^verbatim>\<open>
  def suggest_alternatives(component, sae_specs):
      candidates = []
      for spec in sae_specs:
          differences = []
          for k in component:
              if k in spec and normalize_units(component[k]) != normalize_units(spec[k]):
                  differences.append((k, component[k], spec[k]))
          if len(differences) <= 2:
              candidates.append({"spec": spec, "differences": differences})
      return candidates
  \<close>
  A candidate is the dict with the keys \<open>"spec"\<close> and \<open>"differences"\<close>; a difference is a
  3-tuple.  \<open>collect_differences\<close> is the inner loop over the component's items, with the
  list \<open>differences\<close> as its state; \<open>suggest_loop\<close> is the outer loop, with \<open>candidates\<close>.
\<close>

type_synonym difference = "pystr \<times> pyval \<times> pyval"

record candidate =
  alt_spec :: pydict
  alt_differences :: "difference list"

fun collect_differences :: "unicode_db \<Rightarrow> pydict \<Rightarrow> pydict \<Rightarrow> difference list \<Rightarrow> difference list" where
  "collect_differences ucd [] spec differences = differences"
| "collect_differences ucd ((k, v) # rest) spec differences =
     (case map_of spec k of
        None \<Rightarrow> collect_differences ucd rest spec differences
      | Some sv \<Rightarrow>
          if normalize_units ucd v \<noteq> normalize_units ucd sv
          then collect_differences ucd rest spec (differences @ [(k, v, sv)])
          else collect_differences ucd rest spec differences)"

fun suggest_loop :: "unicode_db \<Rightarrow> pydict \<Rightarrow> pydict list \<Rightarrow> candidate list \<Rightarrow> candidate list" where
  "suggest_loop ucd component [] candidates = candidates"
| "suggest_loop ucd component (spec # specs) candidates =
     (let differences = collect_differences ucd component spec []
      in if length differences \<le> 2
         then suggest_loop ucd component specs
                (candidates @ [\<lparr>alt_spec = spec, alt_differences = differences\<rparr>])
         else suggest_loop ucd component specs candidates)"

definition suggest_alternatives :: "unicode_db \<Rightarrow> pydict \<Rightarrow> pydict list \<Rightarrow> candidate list" where
  "suggest_alternatives ucd component sae_specs = suggest_loop ucd component sae_specs []"

text \<open>
  The specification's wording, to compare the loops with: for every field present in the
  component and in the specification whose normalised values are unequal, the triple of
  the field, the component's raw value and the specification's raw value; a
  specification qualifies when there are at most two of them.
\<close>

definition spec_differences :: "unicode_db \<Rightarrow> pydict \<Rightarrow> pydict \<Rightarrow> difference list" where
  "spec_differences ucd component spec =
     concat (map (\<lambda>(k, v). case map_of spec k of
                               None \<Rightarrow> []
                             | Some sv \<Rightarrow> if normalize_units ucd v \<noteq> normalize_units ucd sv
                                          then [(k, v, sv)] else []) component)"

definition qualifies :: "unicode_db \<Rightarrow> pydict \<Rightarrow> pydict \<Rightarrow> bool" where
  "qualifies ucd component spec \<longleftrightarrow> length (spec_differences ucd component spec) \<le> 2"

definition candidate_for :: "unicode_db \<Rightarrow> pydict \<Rightarrow> pydict \<Rightarrow> candidate" where
  "candidate_for ucd component spec = \<lparr>alt_spec = spec, alt_differences = spec_differences ucd component spec\<rparr>"

section \<open>Bulk Evaluator\<close>

text \<open>
  \<^verbatim>\<open>
  def generate_component_summary(component, match, reason):
      if match:
          return (f"Component {component.get('part_number', 'N/A')} meets all program and SAE specifications. "
                  f"Use is recommended with 100% risk coverage achieved. Reason: {reason}.")
      else:
          return (f"Component {component.get('part_number', 'N/A')} does not meet required specifications. "
                  f"Risk coverage remains at 0%. Issues: {reason}.")
  \<close>
\<close>

definition generate_component_summary :: "pydict \<Rightarrow> bool \<Rightarrow> pystr \<Rightarrow> pystr" where
  "generate_component_summary component is_match why =
     (if is_match
      then u ''Component '' @ py_str (dict_get component (u ''part_number'') (PStr (u ''N/A'')))
           @ u '' meets all program and SAE specifications. ''
           @ u ''Use is recommended with 100% risk coverage achieved. Reason: '' @ why @ u ''.''
      else u ''Component '' @ py_str (dict_get component (u ''part_number'') (PStr (u ''N/A'')))
           @ u '' does not meet required specifications. ''
           @ u ''Risk coverage remains at 0%. Issues: '' @ why @ u ''.'')"

text \<open>
  \<^verbatim>\<open>
  def process_bulk_components(component_df, sae_specs, user_inputs):
      def evaluate_row(row):
          component_data = row.to_dict()
          is_match, reason = match_component_to_spec(component_data, sae_specs, user_inputs)
          summary = generate_component_summary(component_data, is_match, reason)
          alternatives = suggest_alternatives(component_data, sae_specs) if not is_match else []
          return {
              "component": component_data,
              "match": is_match,
              "reason": reason,
              "summary": summary,
              "alternatives": alternatives,
              "risk_reduction": 0 if not is_match else 100
          }
      with ThreadPoolExecutor() as executor:
          return list(executor.map(evaluate_row, [row for _, row in component_df.iterrows()]))
  \<close>
  The result of a row is the dict with these six keys; the table is the list of its rows,
  each as the dict \<open>row.to_dict()\<close> gives.
\<close>

record eval_result =
  res_component :: pydict
  res_match :: bool
  res_reason :: pystr
  res_summary :: pystr
  res_alternatives :: "candidate list"
  res_risk_reduction :: int

definition evaluate_row :: "unicode_db \<Rightarrow> pydict list \<Rightarrow> pydict \<Rightarrow> pydict \<Rightarrow> py_error + eval_result" where
  "evaluate_row ucd sae_specs user_inputs component_data =
     (case match_component_to_spec ucd component_data sae_specs user_inputs of
        Inl e \<Rightarrow> Inl e
      | Inr (is_match, why) \<Rightarrow>
          Inr \<lparr>res_component = component_data,
               res_match = is_match,
               res_reason = why,
               res_summary = generate_component_summary component_data is_match why,
               res_alternatives =
                 (if \<not> is_match then suggest_alternatives ucd component_data sae_specs else []),
               res_risk_reduction = (if \<not> is_match then 0 else 100)\<rparr>)"

text \<open>
  \<open>executor.map(fn, xs)\<close> submits one task per element, and the pool's workers complete
  them in an order of their own: \<open>order\<close> lists the indices of the tasks in the order
  in which they complete before their result is asked for.  \<open>futures\<close> holds, for each
  task, its outcome if it has completed.  The iterator that \<open>map\<close> returns yields the
  outcomes in the order of submission: it takes the outcome of a completed task, waits
  for one that has not completed (its outcome is then that of the call), and re-raises
  the exception of a call that raised, which ends \<open>list(...)\<close>.
\<close>

definition run_task ::
  "('a \<Rightarrow> py_error + 'b) \<Rightarrow> 'a list \<Rightarrow> (py_error + 'b) option list \<Rightarrow> nat \<Rightarrow> (py_error + 'b) option list" where
  "run_task fn xs futures i = (if i < length xs then futures[i := Some (fn (xs ! i))] else futures)"

fun results_in_order ::
  "('a \<Rightarrow> py_error + 'b) \<Rightarrow> 'a list \<Rightarrow> (py_error + 'b) option list \<Rightarrow> py_error + 'b list" where
  "results_in_order fn [] futures = Inr []"
| "results_in_order fn (x # xs) futures =
     (case (case futures of Some r # _ \<Rightarrow> r | _ \<Rightarrow> fn x) of
        Inl e \<Rightarrow> Inl e
      | Inr y \<Rightarrow>
          (case results_in_order fn xs (tl futures) of
             Inl e \<Rightarrow> Inl e
           | Inr ys \<Rightarrow> Inr (y # ys)))"

definition executor_map ::
  "('a \<Rightarrow> py_error + 'b) \<Rightarrow> 'a list \<Rightarrow> nat list \<Rightarrow> py_error + 'b list" where
  "executor_map fn xs order =
     results_in_order fn xs (foldl (run_task fn xs) (replicate (length xs) None) order)"

definition process_bulk_components ::
  "unicode_db \<Rightarrow> pydict list \<Rightarrow> pydict list \<Rightarrow> pydict \<Rightarrow> nat list \<Rightarrow> py_error + eval_result list" where
  "process_bulk_components ucd component_df sae_specs user_inputs order =
     executor_map (evaluate_row ucd sae_specs user_inputs) component_df order"

text \<open>
  The outcomes of the calls taken in the order of the list, up to the first call that
  raises: what a sequential \<open>map\<close> gives.
\<close>

fun map_results :: "('a \<Rightarrow> py_error + 'b) \<Rightarrow> 'a list \<Rightarrow> py_error + 'b list" where
  "map_results fn [] = Inr []"
| "map_results fn (x # xs) =
     (case fn x of
        Inl e \<Rightarrow> Inl e
      | Inr y \<Rightarrow> (case map_results fn xs of Inl e \<Rightarrow> Inl e | Inr ys \<Rightarrow> Inr (y # ys)))"

section \<open>Program Store\<close>

text \<open>
  What \<open>json.dump\<close> is given is a Python object built of strings, ints, Booleans,
  \<open>None\<close>, lists, tuples and dicts with string keys.  \<open>results_data\<close> is the list of
  dicts that \<open>process_bulk_components\<close> returns, as such an object: the differences of a
  candidate are tuples.
\<close>

datatype pydata =
    DStr pystr
  | DInt int
  | DBool bool
  | DNone
  | DList "pydata list"
  | DTuple "pydata list"
  | DDict "(pystr \<times> pydata) list"

definition val_data :: "pyval \<Rightarrow> pydata" where
  "val_data v = (case v of PStr s \<Rightarrow> DStr s | PInt i \<Rightarrow> DInt i | PBool b \<Rightarrow> DBool b | PNone \<Rightarrow> DNone)"

definition dict_data :: "pydict \<Rightarrow> pydata" where
  "dict_data d = DDict (map (\<lambda>(k, v). (k, val_data v)) d)"

definition difference_data :: "difference \<Rightarrow> pydata" where
  "difference_data t = (case t of (k, cv, sv) \<Rightarrow> DTuple [DStr k, val_data cv, val_data sv])"

definition candidate_data :: "candidate \<Rightarrow> pydata" where
  "candidate_data c =
     DDict [(u ''spec'', dict_data (alt_spec c)),
            (u ''differences'', DList (map difference_data (alt_differences c)))]"

definition result_data :: "eval_result \<Rightarrow> pydata" where
  "result_data r =
     DDict [(u ''component'', dict_data (res_component r)),
            (u ''match'', DBool (res_match r)),
            (u ''reason'', DStr (res_reason r)),
            (u ''summary'', DStr (res_summary r)),
            (u ''alternatives'', DList (map candidate_data (res_alternatives r))),
            (u ''risk_reduction'', DInt (res_risk_reduction r))]"

definition results_data :: "eval_result list \<Rightarrow> pydata" where
  "results_data rs = DList (map result_data rs)"

text \<open>
  A JSON document.  The encoder writes a list and a tuple as an array, the decoder reads
  an array as a list.  The text of the document is not modelled: a file holds the JSON
  value that the text denotes.
\<close>

datatype json =
    JStr pystr
  | JInt int
  | JBool bool
  | JNull
  | JArray "json list"
  | JObject "(pystr \<times> json) list"

fun json_encode :: "pydata \<Rightarrow> json" where
  "json_encode (DStr s) = JStr s"
| "json_encode (DInt i) = JInt i"
| "json_encode (DBool b) = JBool b"
| "json_encode DNone = JNull"
| "json_encode (DList xs) = JArray (map json_encode xs)"
| "json_encode (DTuple xs) = JArray (map json_encode xs)"
| "json_encode (DDict kvs) = JObject (map (\<lambda>kv. (fst kv, json_encode (snd kv))) kvs)"

fun json_decode :: "json \<Rightarrow> pydata" where
  "json_decode (JStr s) = DStr s"
| "json_decode (JInt i) = DInt i"
| "json_decode (JBool b) = DBool b"
| "json_decode JNull = DNone"
| "json_decode (JArray xs) = DList (map json_decode xs)"
| "json_decode (JObject kvs) = DDict (map (\<lambda>kv. (fst kv, json_decode (snd kv))) kvs)"

text \<open>
  \<^verbatim>\<open>
  def save_program_data(program_name, data):
      path = Path("local_program_data") / f"{program_name}.json"
      with open(path, "w") as f:
          json.dump(data, f, indent=2)

  def load_program_data(program_name):
      path = Path("local_program_data") / f"{program_name}.json"
      if not path.exists():
          return {}
      with open(path, "r") as f:
          return json.load(f)
  \<close>
  The files are an association list from path to document, the first entry for a path
  being the file; writing a file puts its entry in front and drops the older one.
\<close>

type_synonym files = "(pystr \<times> json) list"

definition program_path :: "pystr \<Rightarrow> pystr" where
  "program_path program_name = u ''local_program_data/'' @ program_name @ u ''.json''"

definition save_program_data :: "pystr \<Rightarrow> pydata \<Rightarrow> files \<Rightarrow> files" where
  "save_program_data program_name data fs =
     (program_path program_name, json_encode data)
       # filter (\<lambda>f. fst f \<noteq> program_path program_name) fs"

definition load_program_data :: "pystr \<Rightarrow> files \<Rightarrow> pydata" where
  "load_program_data program_name fs =
     (case map_of fs (program_path program_name) of
        None \<Rightarrow> DDict []
      | Some doc \<Rightarrow> json_decode doc)"

text \<open>The object with every tuple replaced by the list of its elements.\<close>

fun tuples_as_lists :: "pydata \<Rightarrow> pydata" where
  "tuples_as_lists (DList xs) = DList (map tuples_as_lists xs)"
| "tuples_as_lists (DTuple xs) = DList (map tuples_as_lists xs)"
| "tuples_as_lists (DDict kvs) = DDict (map (\<lambda>kv. (fst kv, tuples_as_lists (snd kv))) kvs)"
| "tuples_as_lists d = d"

fun has_tuple :: "pydata \<Rightarrow> bool" where
  "has_tuple (DList xs) = list_ex has_tuple xs"
| "has_tuple (DTuple xs) = True"
| "has_tuple (DDict kvs) = list_ex (\<lambda>kv. has_tuple (snd kv)) kvs"
| "has_tuple d = False"

section \<open>Properties of the Normalizer\<close>

text \<open>Replacing a single code point is a map over the string.\<close>

lemma py_replace_single:
  "py_replace [x] new s = concat (map (\<lambda>c. if c = x then new else [c]) s)"
  by (induction s) auto

lemma py_replace_absent: "x \<notin> set s \<Longrightarrow> py_replace [x] new s = s"
  by (induction s) (auto simp: py_replace_single)

lemma in_py_replace:
  "c \<in> set (py_replace [x] new s) \<Longrightarrow> c \<in> set new \<or> (c \<in> set s \<and> c \<noteq> x)"
  by (auto simp: py_replace_single split: if_splits)

lemma py_strip_subset: "set (py_strip s) \<subseteq> set s"
  unfolding py_strip_def
  by (metis set_rev set_dropWhileD subsetI)

lemma rstrip_hd:
  "s \<noteq> [] \<Longrightarrow> \<not> P (hd s) \<Longrightarrow> dropWhile P (rev (dropWhile P (rev s))) = rev (dropWhile P (rev s))"
  by (metis dropWhile_eq_self_iff dropWhile_last hd_rev last_in_set last_rev)

lemma py_strip_idem: "py_strip (py_strip s) = py_strip s"
proof (cases "dropWhile is_space s = []")
  case True
  have "py_strip s = []" by (simp add: py_strip_def True)
  moreover have "py_strip [] = []" by (simp add: py_strip_def)
  ultimately show ?thesis by simp
next
  case False
  let ?a = "dropWhile is_space s"
  let ?b = "rev (dropWhile is_space (rev ?a))"
  have "\<not> is_space (hd ?a)" using False by (simp add: hd_dropWhile)
  with False have "dropWhile is_space ?b = ?b" by (rule rstrip_hd)
  then show ?thesis by (simp add: py_strip_def)
qed

lemma is_space_lower: "is_space (lower_char c) = is_space c"
  by (auto simp: is_space_def lower_char_def)

lemma lower_char_idem: "lower_char (lower_char c) = lower_char c"
  by (auto simp: lower_char_def)

lemma ascii_lower_strip: "ascii_lower (py_strip s) = py_strip (ascii_lower s)"
  unfolding ascii_lower_def py_strip_def
  by (simp add: dropWhile_map rev_map comp_def is_space_lower)

lemma dec_digits_set: "set (dec_digits n) \<subseteq> {48..57}"
proof (induction n rule: dec_digits.induct)
  case (1 n)
  show ?case
  proof (cases "n < 10")
    case True
    then show ?thesis by (subst dec_digits.simps) auto
  next
    case False
    have "n mod 10 < 10" by simp
    then have "48 + n mod 10 \<in> {48..57}" by auto
    with 1 False show ?thesis by (subst dec_digits.simps) auto
  qed
qed

lemma py_strip_fix: "\<forall>c\<in>set s. \<not> is_space c \<Longrightarrow> py_strip s = s"
  unfolding py_strip_def
  by (metis dropWhile_eq_self_iff hd_in_set rev_rev_ident set_rev)

lemma ascii_lower_fix: "\<forall>c\<in>set s. \<not> (65 \<le> c \<and> c \<le> 90) \<Longrightarrow> ascii_lower s = s"
  unfolding ascii_lower_def by (induction s) (auto simp: lower_char_def)

lemma ascii_lower_idem: "ascii_lower (ascii_lower s) = ascii_lower s"
  by (simp add: ascii_lower_def lower_char_idem)

lemma is_ascii_iff: "is_ascii s \<longleftrightarrow> (\<forall>c\<in>set s. c < 128)"
  by (simp add: is_ascii_def list_all_iff)

text \<open>On ASCII text the database is not consulted.\<close>

lemma py_lower_ascii: "is_ascii s \<Longrightarrow> py_lower ucd s = ascii_lower s"
  by (simp add: py_lower_def)

lemma normalize_str:
  "normalize_units ucd (PStr s) = py_strip (py_lower ucd (py_replace [107] (u ''000'')
                          (py_replace [937] (u ''ohm'') (py_replace [181] (u ''u'') s))))"
  by (simp add: normalize_units_def py_str_def u_def)

text \<open>
  After the three replacements the micro sign, the omega and the letter k are gone, and
  what was put in their place is ASCII.
\<close>

lemma replaced_chars:
  assumes "c \<in> set (py_replace [107] (u ''000'') (py_replace [937] (u ''ohm'') (py_replace [181] (u ''u'') s)))"
  shows "c \<in> {48, 104, 109, 111, 117} \<or> (c \<in> set s \<and> c \<notin> {107, 181, 937})"
proof -
  let ?a = "py_replace [181] (u ''u'') s"
  let ?b = "py_replace [937] (u ''ohm'') ?a"
  from in_py_replace [OF assms]
  have 1: "c = 48 \<or> (c \<in> set ?b \<and> c \<noteq> 107)" by (simp add: u_def)
  have 2: "c \<in> set ?b \<Longrightarrow> c \<in> {111, 104, 109} \<or> (c \<in> set ?a \<and> c \<noteq> 937)"
    using in_py_replace [of c 937 "u ''ohm''" ?a] by (simp add: u_def)
  have 3: "c \<in> set ?a \<Longrightarrow> c = 117 \<or> (c \<in> set s \<and> c \<noteq> 181)"
    using in_py_replace [of c 181 "u ''u''" s] by (simp add: u_def)
  show ?thesis using 1 2 3 by auto
qed

lemma normalize_fix:
  assumes "set t \<inter> {107, 181, 937} = {}" and "is_ascii t"
  shows "normalize_units ucd (PStr t) = py_strip (ascii_lower t)"
  using assms by (simp add: normalize_str py_replace_absent py_lower_ascii)

lemma normalize_str_ascii:
  assumes "\<forall>c\<in>set s. c < 128 \<or> c = 181 \<or> c = 937"
  shows "normalize_units ucd (PStr s) = py_strip (ascii_lower (py_replace [107] (u ''000'')
                          (py_replace [937] (u ''ohm'') (py_replace [181] (u ''u'') s))))"
proof -
  let ?c = "py_replace [107] (u ''000'') (py_replace [937] (u ''ohm'') (py_replace [181] (u ''u'') s))"
  have "c < 128" if "c \<in> set ?c" for c
    using replaced_chars [OF that] assms by auto
  then have "is_ascii ?c" by (simp add: is_ascii_iff)
  then show ?thesis by (simp add: normalize_str py_lower_ascii)
qed

lemma normalize_str_free:
  assumes "75 \<notin> set s" and "\<forall>c\<in>set s. c < 128 \<or> c = 181 \<or> c = 937"
  shows "set (normalize_units ucd (PStr s)) \<inter> {107, 181, 937} = {}"
    and "is_ascii (normalize_units ucd (PStr s))"
proof -
  let ?c = "py_replace [107] (u ''000'') (py_replace [937] (u ''ohm'') (py_replace [181] (u ''u'') s))"
  have lc: "lower_char c \<notin> {107, 181, 937} \<and> lower_char c < 128"
    if "c < 128" "c \<notin> {75, 107, 181, 937}" for c
    using that by (auto simp: lower_char_def)
  have x: "x \<notin> {107, 181, 937} \<and> x < 128" if "x \<in> set (ascii_lower ?c)" for x
  proof -
    from that obtain c where c: "c \<in> set ?c" and x: "x = lower_char c"
      by (auto simp: ascii_lower_def)
    from replaced_chars [OF c] assms have "c < 128" "c \<notin> {75, 107, 181, 937}" by auto
    from lc [OF this] x show ?thesis by simp
  qed
  have sub: "set (normalize_units ucd (PStr s)) \<subseteq> set (ascii_lower ?c)"
    using py_strip_subset [of "ascii_lower ?c"] by (simp add: normalize_str_ascii [OF assms(2)])
  show "set (normalize_units ucd (PStr s)) \<inter> {107, 181, 937} = {}"
    using sub x by blast
  show "is_ascii (normalize_units ucd (PStr s))"
    unfolding is_ascii_iff using sub x by blast
qed

lemma normalize_str_idem:
  assumes "75 \<notin> set s" and "\<forall>c\<in>set s. c < 128 \<or> c = 181 \<or> c = 937"
  shows "normalize_units ucd (PStr (normalize_units ucd (PStr s))) = normalize_units ucd (PStr s)"
proof -
  have "normalize_units ucd (PStr (normalize_units ucd (PStr s)))
          = py_strip (ascii_lower (normalize_units ucd (PStr s)))"
    by (rule normalize_fix [OF normalize_str_free [OF assms]])
  also have "\<dots> = normalize_units ucd (PStr s)"
    by (simp add: normalize_str_ascii [OF assms(2)] ascii_lower_strip ascii_lower_idem py_strip_idem)
  finally show ?thesis .
qed

lemma py_str_int_set: "set (py_str (PInt i)) \<subseteq> insert 45 {48..57}"
  using dec_digits_set [of "nat i"] dec_digits_set [of "nat (- i)"] by (auto simp: py_str_def)

lemma normalize_int: "normalize_units ucd (PInt i) = py_str (PInt i)"
proof -
  have "\<forall>c\<in>set (py_str (PInt i)). \<not> is_space c"
    using py_str_int_set [of i] by (auto simp: is_space_def)
  then show ?thesis by (simp add: normalize_units_def py_strip_fix)
qed

lemma normalize_int_idem:
  "normalize_units ucd (PStr (normalize_units ucd (PInt i))) = normalize_units ucd (PInt i)"
proof -
  let ?t = "py_str (PInt i)"
  have t: "set ?t \<subseteq> insert 45 {48..57}" by (rule py_str_int_set)
  have "set ?t \<inter> {107, 181, 937} = {}" using t by auto
  moreover have "is_ascii ?t" unfolding is_ascii_iff using t by auto
  ultimately have "normalize_units ucd (PStr ?t) = py_strip (ascii_lower ?t)"
    by (rule normalize_fix)
  also have "ascii_lower ?t = ?t" using t by (intro ascii_lower_fix) auto
  also have "py_strip ?t = ?t" using t by (intro py_strip_fix) (auto simp: is_space_def)
  finally show ?thesis by (simp add: normalize_int)
qed

section \<open>Properties of the Tolerance Comparator\<close>

text \<open>Evaluation of the rounding on numerals: \<open>floor\<close> of a quotient of numerals.\<close>

lemma floor_rat_numeral_div: "\<lfloor>numeral a / numeral b :: rat\<rfloor> = numeral a div numeral b"
  using floor_divide_of_int_eq [of "numeral a" "numeral b", where ?'a = rat] by simp

lemma floor_rat_one_div: "\<lfloor>1 / numeral b :: rat\<rfloor> = 1 div numeral b"
  using floor_divide_of_int_eq [of 1 "numeral b", where ?'a = rat] by simp

lemmas str_eval = u_def normalize_units_def py_lower_def is_ascii_def ascii_lower_def lower_char_def
  py_strip_def py_str_def is_space_def

lemmas fl_eval = fl_def fl_exp_def round_to_def ilog2_def pow2_def round_half_even_def
  scale_up.simps scale_down.simps Let_def floor_rat_numeral_div floor_rat_one_div

lemmas parse_eval = py_float_def float_of_str_def float_text_def is_ascii_def ascii_lower_def
  lower_char_def c_space_def split_sign_def parse_decimal_def ascii_digit_def digits_value_def

lemmas tolerance_eval = within_tolerance_def within_tolerance_try_def default_tolerance_def

text \<open>Rounding keeps the sign and never gives NaN.\<close>

lemma pow2_pos: "0 < pow2 p"
  by (simp add: pow2_def)

lemma round_half_even_nonneg: "0 \<le> x \<Longrightarrow> 0 \<le> round_half_even x"
  by (auto simp: round_half_even_def Let_def)

lemma round_to_nonneg: "0 \<le> a \<Longrightarrow> 0 \<le> round_to p a"
proof -
  assume "0 \<le> a"
  then have "0 \<le> a / pow2 p" using pow2_pos [of p] by simp
  then have "0 \<le> round_half_even (a / pow2 p)" by (rule round_half_even_nonneg)
  then show ?thesis using pow2_pos [of p] by (simp add: round_to_def)
qed

lemma fl_not_nan: "fl q \<noteq> NaN"
  by (simp add: fl_def)

lemma fl_nonpos:
  assumes "q \<le> 0"
  shows "fl q = NInf \<or> (\<exists>r. r \<le> 0 \<and> fl q = Fin r)"
proof (cases "q = 0")
  case True
  then show ?thesis by (simp add: fl_def)
next
  case False
  with assms have neg: "q < 0" by simp
  define v where "v = round_to (fl_exp \<bar>q\<bar>) \<bar>q\<bar>"
  have v: "0 \<le> v" unfolding v_def by (rule round_to_nonneg) simp
  have "fl q = (if 2 ^ 1024 \<le> v then NInf else Fin (- v))"
    using neg by (simp add: fl_def v_def)
  with v show ?thesis by auto
qed

lemma within_tolerance_total: "\<exists>b. within_tolerance ucd expected actual tolerance = Inr b"
  by (cases "within_tolerance_try ucd expected actual tolerance") (auto simp: within_tolerance_def)

text \<open>The three calls of the comparator that the specification lists.\<close>

lemma within_tolerance_examples:
  "within_tolerance ucd (PStr (u ''100'')) (PStr (u ''104'')) default_tolerance = Inr True"
  "within_tolerance ucd (PStr (u ''100'')) (PStr (u ''106'')) default_tolerance = Inr False"
  "within_tolerance ucd (PStr (u ''100'')) (PStr (u ''95'')) default_tolerance = Inr True"
  by (simp_all add: str_eval parse_eval fl_eval tolerance_eval)

text \<open>
  Beyond ASCII the database decides: where it gives the Arabic-Indic digits their values
  (code points 1632 and 1633 are the digits zero and one), \<open>float()\<close> reads a numeral
  written with them, and the comparator accepts it against itself.
\<close>

lemma within_tolerance_arabic_indic:
  assumes "db_decimal ucd 1632 = Some 0" and "db_decimal ucd 1633 = Some 1"
  shows "py_float ucd (PStr [1633, 1632, 1632]) = Inr (Fin 100)"
    and "within_tolerance ucd (PStr [1633, 1632, 1632]) (PStr [1633, 1632, 1632]) default_tolerance
           = Inr True"
proof -
  show f: "py_float ucd (PStr [1633, 1632, 1632]) = Inr (Fin 100)"
    by (simp add: parse_eval decimal_value_def is_space_def u_def fl_eval assms)
  have d: "default_tolerance = Fin (3602879701896397 / 72057594037927936)"
    by (simp add: default_tolerance_def fl_eval)
  show "within_tolerance ucd (PStr [1633, 1632, 1632]) (PStr [1633, 1632, 1632]) default_tolerance
          = Inr True"
    by (simp add: within_tolerance_def within_tolerance_try_def f d fl_def)
qed

section \<open>Properties of the Matcher\<close>

lemmas matcher_eval = match_component_to_spec_def spec_check_def spec_accepted_def spec_reasons_def
  check_key_def dict_get_def has_digit_def decimal_value_def Let_def

text \<open>The loops never raise: the only call that could is handled inside the comparator.\<close>

lemma check_key_total: "\<exists>st'. check_key ucd c s kv st = Inr st'"
proof -
  obtain b where "within_tolerance ucd (PStr (normalize_units ucd (dict_get s (fst kv) (PStr []))))
      (PStr (normalize_units ucd (dict_get c (fst kv) (PStr [])))) default_tolerance = Inr b"
    using within_tolerance_total by blast
  then show ?thesis by (auto simp: check_key_def Let_def)
qed

lemma check_keys_total: "\<exists>st'. check_keys ucd c s kvs st = Inr st'"
proof (induction kvs arbitrary: st)
  case Nil
  show ?case by simp
next
  case (Cons kv kvs)
  obtain st1 where "check_key ucd c s kv st = Inr st1" using check_key_total by blast
  then show ?case using Cons.IH [of st1] by simp
qed

lemma spec_check_total: "\<exists>m rs. spec_check ucd c s user = Inr (m, rs)"
  using check_keys_total [of ucd c s user "(True, [])"] by (auto simp: spec_check_def)

lemma check_key_ok: "field_ok ucd c s kv \<Longrightarrow> check_key ucd c s kv st = Inr st"
  by (auto simp: field_ok_def check_key_def Let_def)

lemma check_key_not_ok: "\<not> field_ok ucd c s kv \<Longrightarrow> \<exists>rs. check_key ucd c s kv st = Inr (False, rs)"
  using within_tolerance_total [of ucd "PStr (normalize_units ucd (dict_get s (fst kv) (PStr [])))"
      "PStr (normalize_units ucd (dict_get c (fst kv) (PStr [])))" default_tolerance]
  by (auto simp: field_ok_def check_key_def Let_def)

lemma check_keys_ok: "\<forall>kv\<in>set kvs. field_ok ucd c s kv \<Longrightarrow> check_keys ucd c s kvs st = Inr st"
  by (induction kvs) (auto simp: check_key_ok)

lemma check_keys_False: "\<exists>rs'. check_keys ucd c s kvs (False, rs) = Inr (False, rs')"
proof (induction kvs arbitrary: rs)
  case Nil
  show ?case by simp
next
  case (Cons kv kvs)
  have "\<exists>rs1. check_key ucd c s kv (False, rs) = Inr (False, rs1)"
    by (cases "field_ok ucd c s kv") (auto simp: check_key_ok dest: check_key_not_ok)
  then show ?case using Cons.IH by auto
qed

lemma check_keys_accepts_iff:
  "(\<exists>rs'. check_keys ucd c s kvs (True, rs) = Inr (True, rs')) \<longleftrightarrow> (\<forall>kv\<in>set kvs. field_ok ucd c s kv)"
proof (induction kvs)
  case Nil
  show ?case by simp
next
  case (Cons kv kvs)
  show ?case
  proof (cases "field_ok ucd c s kv")
    case True
    then show ?thesis using Cons.IH by (simp add: check_key_ok)
  next
    case False
    from check_key_not_ok [OF False, of "(True, rs)"]
    obtain rs1 where 1: "check_key ucd c s kv (True, rs) = Inr (False, rs1)" by blast
    from check_keys_False [of ucd c s kvs rs1] obtain rs2
      where 2: "check_keys ucd c s kvs (False, rs1) = Inr (False, rs2)" by blast
    from False 1 2 show ?thesis by simp
  qed
qed

lemma spec_check_ok:
  "\<forall>kv\<in>set user. field_ok ucd c s kv \<Longrightarrow> spec_check ucd c s user = Inr (True, [])"
  by (simp add: spec_check_def check_keys_ok)

lemma spec_accepted_iff: "spec_accepted ucd c s user \<longleftrightarrow> (\<forall>kv\<in>set user. field_ok ucd c s kv)"
proof
  assume "\<forall>kv\<in>set user. field_ok ucd c s kv"
  then show "spec_accepted ucd c s user" by (simp add: spec_accepted_def spec_check_ok)
next
  assume "spec_accepted ucd c s user"
  then obtain rs where "check_keys ucd c s user (True, []) = Inr (True, rs)"
    by (auto simp: spec_accepted_def spec_check_def split: sum.splits)
  then show "\<forall>kv\<in>set user. field_ok ucd c s kv"
    using check_keys_accepts_iff [of ucd c s user "[]"] by blast
qed

lemma spec_check_eq: "spec_check ucd c s user = Inr (spec_accepted ucd c s user, spec_reasons ucd c s user)"
  using spec_check_total [of ucd c s user] by (auto simp: spec_accepted_def spec_reasons_def)

lemma match_loop_accept:
  assumes "spec \<in> set specs" and "spec_accepted ucd c spec user"
  shows "\<exists>reason. match_loop ucd c specs user l = Inr (True, reason)"
  using assms(1)
proof (induction specs arbitrary: l)
  case Nil
  then show ?case by simp
next
  case (Cons s specs)
  show ?case
  proof (cases "spec_accepted ucd c s user")
    case True
    then show ?thesis by (simp add: spec_check_eq)
  next
    case False
    with assms(2) have "s \<noteq> spec" by auto
    with Cons.prems have "spec \<in> set specs" by simp
    from Cons.IH [OF this] False show ?thesis by (simp add: spec_check_eq)
  qed
qed

lemma match_loop_reject:
  assumes "\<forall>s\<in>set specs. \<not> spec_accepted ucd c s user"
  shows "match_loop ucd c specs user l =
           (case (if specs = [] then l else Some (spec_reasons ucd c (last specs) user)) of
              None \<Rightarrow> Inl UnboundLocalError
            | Some rs \<Rightarrow> Inr (False, u ''No SAE spec match found. Issues: '' @ py_join (u ''; '') rs))"
  using assms
proof (induction specs arbitrary: l)
  case Nil
  show ?case by simp
next
  case (Cons s specs)
  then have "\<not> spec_accepted ucd c s user" and rest: "\<forall>s\<in>set specs. \<not> spec_accepted ucd c s user"
    by simp_all
  then show ?case using Cons.IH [OF rest, of "Some (spec_reasons ucd c s user)"]
    by (simp add: spec_check_eq)
qed

lemma dict_get_differ:
  "dict_get (xs @ (k, v1) # ys) k' d = dict_get (xs @ (k, v2) # ys) k' d \<or>
   (k' = k \<and> dict_get (xs @ (k, v1) # ys) k' d = v1 \<and> dict_get (xs @ (k, v2) # ys) k' d = v2)"
  by (induction xs) (auto simp: dict_get_def)

lemma check_key_cong:
  "dict_get c1 (fst kv) (PStr []) = dict_get c2 (fst kv) (PStr []) \<Longrightarrow>
   check_key ucd c1 s kv st = check_key ucd c2 s kv st"
  by (simp add: check_key_def)

lemma check_key_digitless:
  assumes "normalize_units ucd (dict_get c1 (fst kv) (PStr [])) \<noteq> []"
    and "\<not> has_digit ucd (normalize_units ucd (dict_get c1 (fst kv) (PStr [])))"
    and "normalize_units ucd (dict_get c2 (fst kv) (PStr [])) \<noteq> []"
    and "\<not> has_digit ucd (normalize_units ucd (dict_get c2 (fst kv) (PStr [])))"
  shows "check_key ucd c1 s kv st = check_key ucd c2 s kv st"
  using assms by (simp add: check_key_def Let_def)

lemma check_key_same_component:
  assumes "normalize_units ucd v1 \<noteq> []" "\<not> has_digit ucd (normalize_units ucd v1)"
    and "normalize_units ucd v2 \<noteq> []" "\<not> has_digit ucd (normalize_units ucd v2)"
  shows "check_key ucd (xs @ (k, v1) # ys) s kv st = check_key ucd (xs @ (k, v2) # ys) s kv st"
proof -
  let ?c1 = "xs @ (k, v1) # ys" and ?c2 = "xs @ (k, v2) # ys"
  from dict_get_differ [of xs k v1 ys "fst kv" "PStr []" v2]
  consider "dict_get ?c1 (fst kv) (PStr []) = dict_get ?c2 (fst kv) (PStr [])"
    | "dict_get ?c1 (fst kv) (PStr []) = v1" "dict_get ?c2 (fst kv) (PStr []) = v2"
    by blast
  then show ?thesis
  proof cases
    case 1
    then show ?thesis by (rule check_key_cong)
  next
    case 2
    show ?thesis by (rule check_key_digitless) (simp_all add: 2 assms)
  qed
qed

lemma check_keys_same_component:
  assumes "normalize_units ucd v1 \<noteq> []" "\<not> has_digit ucd (normalize_units ucd v1)"
    and "normalize_units ucd v2 \<noteq> []" "\<not> has_digit ucd (normalize_units ucd v2)"
  shows "check_keys ucd (xs @ (k, v1) # ys) s kvs st = check_keys ucd (xs @ (k, v2) # ys) s kvs st"
proof (induction kvs arbitrary: st)
  case Nil
  show ?case by simp
next
  case (Cons kv kvs)
  show ?case
    by (simp add: check_key_same_component [OF assms] Cons.IH cong: sum.case_cong)
qed

lemma match_loop_same_component:
  assumes "normalize_units ucd v1 \<noteq> []" "\<not> has_digit ucd (normalize_units ucd v1)"
    and "normalize_units ucd v2 \<noteq> []" "\<not> has_digit ucd (normalize_units ucd v2)"
  shows "match_loop ucd (xs @ (k, v1) # ys) specs user l = match_loop ucd (xs @ (k, v2) # ys) specs user l"
proof (induction specs arbitrary: l)
  case Nil
  show ?case by simp
next
  case (Cons s specs)
  show ?case
    by (simp add: spec_check_def check_keys_same_component [OF assms] Cons.IH
             cong: sum.case_cong prod.case_cong if_cong)
qed

text \<open>
  A value whose only digit is beyond ASCII takes the comparator's branch, and a capital
  letter beyond ASCII is lowered as the database says: a record of type A-umlaut (code
  point 196) meets the requirement a-umlaut (228).
\<close>

lemma has_digit_arabic_indic: "db_decimal ucd 1633 = Some 1 \<Longrightarrow> has_digit ucd [1633, 120]"
  by (simp add: has_digit_def decimal_value_def)

lemma match_umlaut:
  assumes "db_lower ucd [196] = [228]" and "db_lower ucd [228] = [228]"
    and "db_decimal ucd 228 = None"
  shows "match_component_to_spec ucd [(u ''type'', PStr [196])] [[(u ''type'', PStr [196])]]
           [(u ''type'', PStr [228])]
         = Inr (True, u ''Component matches SAE specification: N/A'')"
  by (simp add: matcher_eval str_eval assms)

section \<open>Properties of the Alternative Suggester\<close>

text \<open>The two loops append to their lists what the specification's wording describes.\<close>

lemma collect_differences_eq:
  "collect_differences ucd component spec acc = acc @ spec_differences ucd component spec"
proof (induction component arbitrary: acc)
  case Nil
  show ?case by (simp add: spec_differences_def)
next
  case (Cons kv rest)
  obtain k v where kv: "kv = (k, v)" by (cases kv)
  have step: "spec_differences ucd ((k, v) # rest) spec
              = (case map_of spec k of None \<Rightarrow> []
                 | Some sv \<Rightarrow> if normalize_units ucd v \<noteq> normalize_units ucd sv then [(k, v, sv)] else [])
                @ spec_differences ucd rest spec"
    by (simp add: spec_differences_def)
  show ?case by (simp add: kv Cons.IH step split: option.splits)
qed

lemma suggest_loop_eq:
  "suggest_loop ucd component specs acc
     = acc @ map (candidate_for ucd component) (filter (qualifies ucd component) specs)"
  by (induction specs arbitrary: acc)
     (simp_all add: collect_differences_eq qualifies_def candidate_for_def Let_def)

lemma suggest_alternatives_eq:
  "suggest_alternatives ucd component sae_specs
     = map (candidate_for ucd component) (filter (qualifies ucd component) sae_specs)"
  by (simp add: suggest_alternatives_def suggest_loop_eq)

section \<open>Properties of the Bulk Evaluator\<close>

text \<open>
  Every future is either pending or holds the outcome of its own call, whatever tasks
  have completed: so the iterator yields what a sequential map yields.
\<close>

lemma run_task_invariant:
  assumes "list_all2 (\<lambda>x f. f = None \<or> f = Some (fn x)) xs futures"
  shows "list_all2 (\<lambda>x f. f = None \<or> f = Some (fn x)) xs (run_task fn xs futures i)"
proof (cases "i < length xs")
  case True
  have "list_all2 (\<lambda>x f. f = None \<or> f = Some (fn x)) (xs[i := xs ! i]) (futures[i := Some (fn (xs ! i))])"
    using assms by (intro list_all2_update_cong) simp_all
  then show ?thesis using True by (simp add: run_task_def)
next
  case False
  then show ?thesis using assms by (simp add: run_task_def)
qed

lemma foldl_run_task_invariant:
  assumes "list_all2 (\<lambda>x f. f = None \<or> f = Some (fn x)) xs futures"
  shows "list_all2 (\<lambda>x f. f = None \<or> f = Some (fn x)) xs (foldl (run_task fn xs) futures order)"
  using assms by (induction order arbitrary: futures) (simp_all add: run_task_invariant)

lemma results_in_order_eq:
  assumes "list_all2 (\<lambda>x f. f = None \<or> f = Some (fn x)) xs futures"
  shows "results_in_order fn xs futures = map_results fn xs"
  using assms
proof (induction xs arbitrary: futures)
  case Nil
  show ?case by simp
next
  case (Cons x xs)
  then obtain f fs where fs: "futures = f # fs" and f: "f = None \<or> f = Some (fn x)"
    and rest: "list_all2 (\<lambda>x f. f = None \<or> f = Some (fn x)) xs fs"
    by (auto simp: list_all2_Cons1)
  from f have "(case futures of Some r # _ \<Rightarrow> r | _ \<Rightarrow> fn x) = fn x"
    by (auto simp: fs)
  then show ?case using Cons.IH [OF rest] by (auto simp: fs split: sum.splits)
qed

lemma executor_map_eq: "executor_map fn xs order = map_results fn xs"
proof -
  have "list_all2 (\<lambda>x f. f = None \<or> f = Some (fn x)) xs (replicate (length xs) None)"
    by (simp add: list_all2_conv_all_nth)
  then show ?thesis
    unfolding executor_map_def by (intro results_in_order_eq foldl_run_task_invariant)
qed

lemma map_results_all:
  assumes "\<forall>x\<in>set xs. \<exists>y. fn x = Inr y"
  shows "\<exists>ys. map_results fn xs = Inr ys \<and> length ys = length xs \<and>
              (\<forall>i<length xs. fn (xs ! i) = Inr (ys ! i))"
  using assms
proof (induction xs)
  case Nil
  show ?case by simp
next
  case (Cons x xs)
  then obtain y where y: "fn x = Inr y" by auto
  from Cons obtain ys where ys: "map_results fn xs = Inr ys" "length ys = length xs"
    "\<forall>i<length xs. fn (xs ! i) = Inr (ys ! i)" by auto
  have "\<forall>i<length (x # xs). fn ((x # xs) ! i) = Inr ((y # ys) ! i)"
    using y ys(3) by (auto simp: nth_Cons split: nat.splits)
  then show ?case using y ys by simp
qed

lemma map_results_set:
  "map_results fn xs = Inr ys \<Longrightarrow> \<forall>y\<in>set ys. \<exists>x\<in>set xs. fn x = Inr y"
proof (induction xs arbitrary: ys)
  case Nil
  then show ?case by simp
next
  case (Cons x xs)
  then show ?case by (auto split: sum.splits)
qed

lemma match_component_to_spec_empty:
  "match_component_to_spec ucd component_data [] user_inputs = Inl UnboundLocalError"
  by (simp add: match_component_to_spec_def)

lemma match_component_to_spec_total:
  assumes "sae_specs \<noteq> []"
  shows "\<exists>m r. match_component_to_spec ucd component_data sae_specs user_inputs = Inr (m, r)"
proof (cases "\<exists>s\<in>set sae_specs. spec_accepted ucd component_data s user_inputs")
  case True
  then obtain s where "s \<in> set sae_specs" "spec_accepted ucd component_data s user_inputs" by blast
  from match_loop_accept [OF this, where l = None] show ?thesis
    by (auto simp: match_component_to_spec_def)
next
  case False
  then have "\<forall>s\<in>set sae_specs. \<not> spec_accepted ucd component_data s user_inputs" by blast
  from match_loop_reject [OF this, where l = None] assms show ?thesis
    by (auto simp: match_component_to_spec_def)
qed

lemma evaluate_row_total:
  assumes "sae_specs \<noteq> []"
  shows "\<exists>r. evaluate_row ucd sae_specs user_inputs component_data = Inr r"
  using match_component_to_spec_total [OF assms, of ucd component_data user_inputs]
  by (auto simp: evaluate_row_def)

lemma evaluate_row_empty:
  "evaluate_row ucd [] user_inputs component_data = Inl UnboundLocalError"
  by (simp add: evaluate_row_def match_component_to_spec_empty)

lemma evaluate_row_risk:
  assumes "evaluate_row ucd sae_specs user_inputs component_data = Inr r"
  shows "(res_risk_reduction r = 100 \<longleftrightarrow> res_match r) \<and> (\<not> res_match r \<longrightarrow> res_risk_reduction r = 0)"
proof -
  obtain m w where mw: "match_component_to_spec ucd component_data sae_specs user_inputs = Inr (m, w)"
    using assms by (auto simp: evaluate_row_def split: sum.splits)
  have "res_match r = m" and "res_risk_reduction r = (if \<not> m then 0 else 100)"
    using assms by (auto simp: evaluate_row_def mw)
  then show ?thesis by simp
qed

text \<open>
  With at least one specification no row raises, and the results are those of the rows,
  one per row and in row order, whatever the order in which the workers complete.
\<close>

lemma process_bulk_components_in_row_order:
  assumes "sae_specs \<noteq> []"
  shows "\<exists>rs. process_bulk_components ucd component_df sae_specs user_inputs order = Inr rs \<and>
              length rs = length component_df \<and>
              (\<forall>i<length component_df.
                 evaluate_row ucd sae_specs user_inputs (component_df ! i) = Inr (rs ! i))"
  unfolding process_bulk_components_def executor_map_eq
  by (rule map_results_all) (simp add: evaluate_row_total [OF assms])

lemma process_bulk_components_empty_specs:
  "process_bulk_components ucd (row # rows) [] user_inputs order = Inl UnboundLocalError"
  by (simp add: process_bulk_components_def executor_map_eq evaluate_row_empty)

lemmas bulk_eval = process_bulk_components_def executor_map_eq evaluate_row_def
  generate_component_summary_def suggest_alternatives_def

section \<open>Properties of the Program Store\<close>

text \<open>Decoding what was encoded gives the object back with its tuples as lists.\<close>

lemma json_roundtrip: "json_decode (json_encode d) = tuples_as_lists d"
  by (induction d) (auto simp: comp_def)

lemma map_fixed_iff: "map f xs = xs \<longleftrightarrow> (\<forall>x\<in>set xs. f x = x)"
  by (induction xs) auto

lemma tuples_as_lists_fixed: "tuples_as_lists d = d \<longleftrightarrow> \<not> has_tuple d"
proof (induction d)
  case (DList xs)
  then show ?case by (simp add: map_fixed_iff list_ex_iff)
next
  case (DDict kvs)
  have "(\<forall>kv\<in>set kvs. (fst kv, tuples_as_lists (snd kv)) = kv)
          \<longleftrightarrow> (\<forall>kv\<in>set kvs. \<not> has_tuple (snd kv))"
  proof (intro ball_cong refl)
    fix kv assume "kv \<in> set kvs"
    moreover have "snd kv \<in> Basic_BNFs.snds kv"
      by (cases kv) (simp add: snds.simps)
    ultimately have "tuples_as_lists (snd kv) = snd kv \<longleftrightarrow> \<not> has_tuple (snd kv)"
      by (rule DDict.IH)
    then show "(fst kv, tuples_as_lists (snd kv)) = kv \<longleftrightarrow> \<not> has_tuple (snd kv)"
      by (cases kv) auto
  qed
  then show ?case by (simp add: map_fixed_iff list_ex_iff)
qed simp_all

lemma load_save:
  "load_program_data program_name (save_program_data program_name d fs) = json_decode (json_encode d)"
  by (simp add: load_program_data_def save_program_data_def)

lemma load_missing: "load_program_data program_name [] = DDict []"
  by (simp add: load_program_data_def)

lemmas store_eval = results_data_def result_data_def candidate_data_def difference_data_def
  dict_data_def val_data_def save_program_data_def load_program_data_def program_path_def

text \<open>
  C1 (as amended).  Agreement between component and specification is not enough: the
  specification must also carry the value the user requires.  If some specification of
  the sequence has, on every requirement field, the same normalised value as the
  component, that value is non-empty and equal to the normalised required value, and the
  comparator accepts the pair wherever the value contains a digit, then the Matcher
  returns \<open>match = True\<close>.
\<close>

theorem match_component_to_spec_accepts:
  assumes "spec \<in> set sae_specs"
    and "\<forall>kv\<in>set user_inputs.
           normalize_units ucd (dict_get component_data (fst kv) (PStr []))
             = normalize_units ucd (dict_get spec (fst kv) (PStr [])) \<and>
           normalize_units ucd (dict_get spec (fst kv) (PStr [])) \<noteq> [] \<and>
           normalize_units ucd (dict_get spec (fst kv) (PStr [])) = normalize_units ucd (snd kv) \<and>
           (has_digit ucd (normalize_units ucd (dict_get spec (fst kv) (PStr []))) \<longrightarrow>
              within_tolerance ucd (PStr (normalize_units ucd (dict_get spec (fst kv) (PStr []))))
                (PStr (normalize_units ucd (dict_get component_data (fst kv) (PStr []))))
                default_tolerance = Inr True)"
  shows "\<exists>reason. match_component_to_spec ucd component_data sae_specs user_inputs = Inr (True, reason)"
proof -
  have "\<forall>kv\<in>set user_inputs. field_ok ucd component_data spec kv"
    using assms(2) by (auto simp: field_ok_def Let_def)
  then have "spec_accepted ucd component_data spec user_inputs"
    by (simp add: spec_accepted_iff)
  with assms(1) show ?thesis
    unfolding match_component_to_spec_def by (rule match_loop_accept)
qed

theorem match_component_to_spec_accepts_witness:
  "match_component_to_spec ascii_db
     [(u ''type'', PStr (u ''Resistor '')), (u ''value'', PInt 100)]
     [[(u ''id'', PInt 3), (u ''type'', PStr (u ''diode''))],
      [(u ''id'', PInt 7), (u ''type'', PStr (u ''RESISTOR '')), (u ''value'', PStr (u ''100''))]]
     [(u ''type'', PStr (u ''resistor'')), (u ''value'', PStr (u ''100''))]
   = Inr (True, u ''Component matches SAE specification: 7'')"
proof -
  let ?c = "[(u ''type'', PStr (u ''Resistor '')), (u ''value'', PInt 100)]"
  let ?s = "[(u ''id'', PInt 7), (u ''type'', PStr (u ''RESISTOR '')), (u ''value'', PStr (u ''100''))]"
  let ?specs = "[[(u ''id'', PInt 3), (u ''type'', PStr (u ''diode''))], ?s]"
  let ?u = "[(u ''type'', PStr (u ''resistor'')), (u ''value'', PStr (u ''100''))]"
  have n: "normalize_units ascii_db (PStr (u ''Resistor '')) = u ''resistor''"
    "normalize_units ascii_db (PStr (u ''RESISTOR '')) = u ''resistor''"
    "normalize_units ascii_db (PStr (u ''resistor'')) = u ''resistor''"
    "normalize_units ascii_db (PStr (u ''100'')) = u ''100''"
    "normalize_units ascii_db (PInt 100) = u ''100''"
    by (simp_all add: str_eval dec_digits.simps)
  have w: "within_tolerance ascii_db (PStr (u ''100'')) (PStr (u ''100'')) default_tolerance = Inr True"
    by (simp add: str_eval parse_eval fl_eval tolerance_eval)
  have mem: "?s \<in> set ?specs" by simp
  have h: "\<forall>kv\<in>set ?u.
           normalize_units ascii_db (dict_get ?c (fst kv) (PStr []))
             = normalize_units ascii_db (dict_get ?s (fst kv) (PStr [])) \<and>
           normalize_units ascii_db (dict_get ?s (fst kv) (PStr [])) \<noteq> [] \<and>
           normalize_units ascii_db (dict_get ?s (fst kv) (PStr [])) = normalize_units ascii_db (snd kv) \<and>
           (has_digit ascii_db (normalize_units ascii_db (dict_get ?s (fst kv) (PStr []))) \<longrightarrow>
              within_tolerance ascii_db (PStr (normalize_units ascii_db (dict_get ?s (fst kv) (PStr []))))
                (PStr (normalize_units ascii_db (dict_get ?c (fst kv) (PStr []))))
                default_tolerance = Inr True)"
    by (simp add: dict_get_def n w) (simp add: u_def has_digit_def decimal_value_def)
  from match_component_to_spec_accepts [OF mem h]
  obtain reason where r: "match_component_to_spec ascii_db ?c ?specs ?u = Inr (True, reason)" by blast
  have sc1: "spec_check ascii_db ?c [(u ''id'', PInt 3), (u ''type'', PStr (u ''diode''))] ?u
               = Inr (False, [u ''Mismatch: user required type = resistor, SAE has diode'',
                              u ''Missing key: value in component or spec.''])"
    by (simp add: matcher_eval str_eval dec_digits.simps)
  have msg: "u ''Component matches SAE specification: '' @ py_str (dict_get ?s (u ''id'') (PStr (u ''N/A'')))
               = u ''Component matches SAE specification: 7''"
    by (simp add: py_str_def dict_get_def dec_digits.simps u_def)
  have "match_component_to_spec ascii_db ?c ?specs ?u
          = (if spec_accepted ascii_db ?c ?s ?u
             then Inr (True, u ''Component matches SAE specification: 7'')
             else Inr (False, u ''No SAE spec match found. Issues: ''
                              @ py_join (u ''; '') (spec_reasons ascii_db ?c ?s ?u)))"
    by (simp add: match_component_to_spec_def sc1 spec_check_eq [of ascii_db ?c ?s ?u] msg)
  with r show ?thesis by (simp split: if_splits)
qed

text \<open>The next instance has the same outcome under every database.\<close>

lemma identical_rejected_any_db:
  "match_component_to_spec ucd
     [(u ''type'', PStr (u ''capacitor''))]
     [[(u ''type'', PStr (u ''capacitor''))]]
     [(u ''type'', PStr (u ''resistor''))]
   = Inr (False, u ''No SAE spec match found. Issues: Mismatch: user required type = resistor, SAE has capacitor'')"
  by (simp add: matcher_eval str_eval)

text \<open>
  C1, counterexample: the component is the specification itself, with no numeric field,
  and the Matcher rejects it, since the user asked for another type.
\<close>

theorem match_component_to_spec_identical_rejected:
  "match_component_to_spec ascii_db
     [(u ''type'', PStr (u ''capacitor''))]
     [[(u ''type'', PStr (u ''capacitor''))]]
     [(u ''type'', PStr (u ''resistor''))]
   = Inr (False, u ''No SAE spec match found. Issues: Mismatch: user required type = resistor, SAE has capacitor'')"
  by (rule identical_rejected_any_db)

text \<open>
  C2 (as amended).  \<open>reasons\<close> is set to the empty list at the start of every iteration
  of the outer loop, so the message built after the loop holds the reasons of the last
  specification only.  For a non-empty sequence in which no specification is accepted,
  the Matcher returns \<open>match = False\<close> and the reasons recorded for the last
  specification, joined by \<open>"; "\<close>.
\<close>

theorem match_component_to_spec_rejects:
  assumes "sae_specs \<noteq> []"
    and "\<forall>spec\<in>set sae_specs. \<not> spec_accepted ucd component_data spec user_inputs"
  shows "match_component_to_spec ucd component_data sae_specs user_inputs =
           Inr (False, u ''No SAE spec match found. Issues: ''
                       @ py_join (u ''; '') (spec_reasons ucd component_data (last sae_specs) user_inputs))"
  using assms by (simp add: match_component_to_spec_def match_loop_reject)

theorem match_component_to_spec_rejects_witness:
  "match_component_to_spec ascii_db
     [(u ''type'', PStr (u ''resistor''))]
     [[(u ''type'', PStr (u ''capacitor''))], [(u ''type'', PStr (u ''diode''))]]
     [(u ''type'', PStr (u ''resistor''))]
   = Inr (False, u ''No SAE spec match found. Issues: Mismatch: user required type = resistor, SAE has diode'')"
proof -
  let ?c = "[(u ''type'', PStr (u ''resistor''))]"
  let ?specs = "[[(u ''type'', PStr (u ''capacitor''))], [(u ''type'', PStr (u ''diode''))]]"
  have ne: "?specs \<noteq> []" by simp
  have rej: "\<forall>spec\<in>set ?specs. \<not> spec_accepted ascii_db ?c spec ?c"
    by (simp add: matcher_eval str_eval)
  have rs: "spec_reasons ascii_db ?c (last ?specs) ?c
              = [u ''Mismatch: user required type = resistor, SAE has diode'']"
    by (simp add: matcher_eval str_eval)
  from match_component_to_spec_rejects [OF ne rej] rs show ?thesis
    by (simp add: u_def)
qed

text \<open>The next instance has the same outcome under every database.\<close>

lemma last_reasons_only_any_db:
  "\<not> spec_accepted ucd [(u ''type'', PStr (u ''resistor''))] [(u ''type'', PStr (u ''capacitor''))]
        [(u ''type'', PStr (u ''resistor''))] \<and>
   \<not> spec_accepted ucd [(u ''type'', PStr (u ''resistor''))] [(u ''type'', PStr (u ''diode''))]
        [(u ''type'', PStr (u ''resistor''))] \<and>
   spec_reasons ucd [(u ''type'', PStr (u ''resistor''))] [(u ''type'', PStr (u ''capacitor''))]
        [(u ''type'', PStr (u ''resistor''))]
     = [u ''Mismatch: user required type = resistor, SAE has capacitor''] \<and>
   spec_reasons ucd [(u ''type'', PStr (u ''resistor''))] [(u ''type'', PStr (u ''diode''))]
        [(u ''type'', PStr (u ''resistor''))]
     = [u ''Mismatch: user required type = resistor, SAE has diode''] \<and>
   match_component_to_spec ucd
     [(u ''type'', PStr (u ''resistor''))]
     [[(u ''type'', PStr (u ''capacitor''))], [(u ''type'', PStr (u ''diode''))]]
     [(u ''type'', PStr (u ''resistor''))]
   = Inr (False, u ''No SAE spec match found. Issues: Mismatch: user required type = resistor, SAE has diode'') \<and>
   match_component_to_spec ucd
     [(u ''type'', PStr (u ''resistor''))]
     [[(u ''type'', PStr (u ''capacitor''))], [(u ''type'', PStr (u ''diode''))]]
     [(u ''type'', PStr (u ''resistor''))]
   \<noteq> Inr (False, u ''No SAE spec match found. Issues: ''
        @ py_join (u ''; '')
            (spec_reasons ucd [(u ''type'', PStr (u ''resistor''))] [(u ''type'', PStr (u ''capacitor''))]
               [(u ''type'', PStr (u ''resistor''))]
             @ spec_reasons ucd [(u ''type'', PStr (u ''resistor''))] [(u ''type'', PStr (u ''diode''))]
               [(u ''type'', PStr (u ''resistor''))]))"
  by (simp add: matcher_eval str_eval)

text \<open>
  C2, counterexample: two specifications are rejected, each for its own reason; the
  message holds the second reason only, not the two joined.
\<close>

theorem match_component_to_spec_last_reasons_only:
  "\<not> spec_accepted ascii_db [(u ''type'', PStr (u ''resistor''))] [(u ''type'', PStr (u ''capacitor''))]
        [(u ''type'', PStr (u ''resistor''))] \<and>
   \<not> spec_accepted ascii_db [(u ''type'', PStr (u ''resistor''))] [(u ''type'', PStr (u ''diode''))]
        [(u ''type'', PStr (u ''resistor''))] \<and>
   spec_reasons ascii_db [(u ''type'', PStr (u ''resistor''))] [(u ''type'', PStr (u ''capacitor''))]
        [(u ''type'', PStr (u ''resistor''))]
     = [u ''Mismatch: user required type = resistor, SAE has capacitor''] \<and>
   spec_reasons ascii_db [(u ''type'', PStr (u ''resistor''))] [(u ''type'', PStr (u ''diode''))]
        [(u ''type'', PStr (u ''resistor''))]
     = [u ''Mismatch: user required type = resistor, SAE has diode''] \<and>
   match_component_to_spec ascii_db
     [(u ''type'', PStr (u ''resistor''))]
     [[(u ''type'', PStr (u ''capacitor''))], [(u ''type'', PStr (u ''diode''))]]
     [(u ''type'', PStr (u ''resistor''))]
   = Inr (False, u ''No SAE spec match found. Issues: Mismatch: user required type = resistor, SAE has diode'') \<and>
   match_component_to_spec ascii_db
     [(u ''type'', PStr (u ''resistor''))]
     [[(u ''type'', PStr (u ''capacitor''))], [(u ''type'', PStr (u ''diode''))]]
     [(u ''type'', PStr (u ''resistor''))]
   \<noteq> Inr (False, u ''No SAE spec match found. Issues: ''
        @ py_join (u ''; '')
            (spec_reasons ascii_db [(u ''type'', PStr (u ''resistor''))] [(u ''type'', PStr (u ''capacitor''))]
               [(u ''type'', PStr (u ''resistor''))]
             @ spec_reasons ascii_db [(u ''type'', PStr (u ''resistor''))] [(u ''type'', PStr (u ''diode''))]
               [(u ''type'', PStr (u ''resistor''))]))"
  by (rule last_reasons_only_any_db)

text \<open>
  C3 (as amended).  The claim as written fails: \<open>lower()\<close> runs after the three
  replacements, so an upper-case K becomes a k that only a second pass expands.
  What holds: normalising twice equals normalising once for every \<open>int\<close>, and for every
  string made of ASCII code points, the micro sign and the capital omega that contains no
  upper-case K (code point 75).
\<close>

theorem normalize_units_idempotent:
  assumes "(\<exists>s. x = PStr s \<and> 75 \<notin> set s \<and> (\<forall>c\<in>set s. c < 128 \<or> c = 181 \<or> c = 937)) \<or> (\<exists>i. x = PInt i)"
  shows "normalize_units ucd (PStr (normalize_units ucd x)) = normalize_units ucd x"
  using assms normalize_str_idem normalize_int_idem by blast

theorem normalize_units_idempotent_witness:
  "75 \<notin> set (u '' 4k7 '' @ [937, 181]) \<and>
   normalize_units ascii_db (PStr (normalize_units ascii_db (PStr (u '' 4k7 '' @ [937, 181]))))
     = normalize_units ascii_db (PStr (u '' 4k7 '' @ [937, 181])) \<and>
   normalize_units ascii_db (PStr (u '' 4k7 '' @ [937, 181])) = u ''40007 ohmu''"
proof -
  have k: "75 \<notin> set (u '' 4k7 '' @ [937, 181])"
    by (simp add: u_def)
  have h: "(\<exists>s. PStr (u '' 4k7 '' @ [937, 181]) = PStr s \<and> 75 \<notin> set s \<and>
               (\<forall>c\<in>set s. c < 128 \<or> c = 181 \<or> c = 937))
           \<or> (\<exists>i. PStr (u '' 4k7 '' @ [937, 181]) = PInt i)"
    by (simp add: u_def)
  have v: "normalize_units ascii_db (PStr (u '' 4k7 '' @ [937, 181])) = u ''40007 ohmu''"
    by (simp add: str_eval)
  from k normalize_units_idempotent [OF h, where ucd = ascii_db] v show ?thesis by blast
qed

text \<open>The next instance has the same outcome under every database.\<close>

lemma upper_case_k_any_db:
  "normalize_units ucd (PStr (u ''10K'')) = u ''10k'' \<and>
   normalize_units ucd (PStr (normalize_units ucd (PStr (u ''10K'')))) = u ''10000'' \<and>
   normalize_units ucd (PStr (normalize_units ucd (PStr (u ''10K'')))) \<noteq> normalize_units ucd (PStr (u ''10K''))"
  by (simp add: str_eval)

text \<open>
  C3, counterexample: \<open>normalize_units("10K")\<close> is \<open>"10k"\<close>, and normalising that gives
  \<open>"10000"\<close>.
\<close>

theorem normalize_units_not_idempotent:
  "normalize_units ascii_db (PStr (u ''10K'')) = u ''10k'' \<and>
   normalize_units ascii_db (PStr (normalize_units ascii_db (PStr (u ''10K'')))) = u ''10000'' \<and>
   normalize_units ascii_db (PStr (normalize_units ascii_db (PStr (u ''10K'')))) \<noteq> normalize_units ascii_db (PStr (u ''10K''))"
  by (rule upper_case_k_any_db)

text \<open>
  C4.  Two component records that differ only in the value of one field, both values
  normalising to a non-empty string without a digit, get the same result from the
  Matcher: such a value of the component is tested for presence and for a digit, and
  never compared with the required value.
\<close>

theorem match_component_to_spec_ignores_text_value:
  assumes "normalize_units ucd v1 \<noteq> []" and "\<not> has_digit ucd (normalize_units ucd v1)"
    and "normalize_units ucd v2 \<noteq> []" and "\<not> has_digit ucd (normalize_units ucd v2)"
  shows "match_component_to_spec ucd (xs @ (k, v1) # ys) sae_specs user_inputs
           = match_component_to_spec ucd (xs @ (k, v2) # ys) sae_specs user_inputs"
  unfolding match_component_to_spec_def by (rule match_loop_same_component [OF assms])

theorem match_component_to_spec_ignores_text_value_witness:
  "match_component_to_spec ascii_db
     [(u ''type'', PStr (u ''resistor'')), (u ''package'', PStr (u ''SMD''))]
     [[(u ''id'', PInt 7), (u ''type'', PStr (u ''resistor'')), (u ''package'', PStr (u ''SMD''))]]
     [(u ''type'', PStr (u ''resistor'')), (u ''package'', PStr (u ''SMD''))]
   = Inr (True, u ''Component matches SAE specification: 7'') \<and>
   match_component_to_spec ascii_db
     [(u ''type'', PStr (u ''resistor'')), (u ''package'', PStr (u ''THT''))]
     [[(u ''id'', PInt 7), (u ''type'', PStr (u ''resistor'')), (u ''package'', PStr (u ''SMD''))]]
     [(u ''type'', PStr (u ''resistor'')), (u ''package'', PStr (u ''SMD''))]
   = Inr (True, u ''Component matches SAE specification: 7'')"
proof -
  have a: "normalize_units ascii_db (PStr (u ''SMD'')) \<noteq> []" "\<not> has_digit ascii_db (normalize_units ascii_db (PStr (u ''SMD'')))"
    by (simp_all add: str_eval has_digit_def decimal_value_def)
  have b: "normalize_units ascii_db (PStr (u ''THT'')) \<noteq> []" "\<not> has_digit ascii_db (normalize_units ascii_db (PStr (u ''THT'')))"
    by (simp_all add: str_eval has_digit_def decimal_value_def)
  have m: "match_component_to_spec ascii_db
     ([(u ''type'', PStr (u ''resistor''))] @ (u ''package'', PStr (u ''SMD'')) # [])
     [[(u ''id'', PInt 7), (u ''type'', PStr (u ''resistor'')), (u ''package'', PStr (u ''SMD''))]]
     [(u ''type'', PStr (u ''resistor'')), (u ''package'', PStr (u ''SMD''))]
   = Inr (True, u ''Component matches SAE specification: 7'')"
    by (simp add: matcher_eval str_eval dec_digits.simps)
  from match_component_to_spec_ignores_text_value [OF a b,
      of "[(u ''type'', PStr (u ''resistor''))]" "u ''package''" "[]"
         "[[(u ''id'', PInt 7), (u ''type'', PStr (u ''resistor'')), (u ''package'', PStr (u ''SMD''))]]"
         "[(u ''type'', PStr (u ''resistor'')), (u ''package'', PStr (u ''SMD''))]"] m
  show ?thesis by simp
qed

text \<open>
  C5.  In every result that \<open>process_bulk_components\<close> returns, \<open>risk_reduction\<close> is 100
  exactly when \<open>match\<close> is true, and 0 when \<open>match\<close> is false.
\<close>

theorem process_bulk_components_risk_reduction:
  assumes "process_bulk_components ucd component_df sae_specs user_inputs order = Inr results"
  shows "\<forall>r\<in>set results. (res_risk_reduction r = 100 \<longleftrightarrow> res_match r) \<and>
                          (\<not> res_match r \<longrightarrow> res_risk_reduction r = 0)"
proof
  fix r assume "r \<in> set results"
  with assms map_results_set [of "evaluate_row ucd sae_specs user_inputs" component_df results]
  obtain row where "evaluate_row ucd sae_specs user_inputs row = Inr r"
    by (auto simp: process_bulk_components_def executor_map_eq)
  then show "(res_risk_reduction r = 100 \<longleftrightarrow> res_match r) \<and>
             (\<not> res_match r \<longrightarrow> res_risk_reduction r = 0)"
    by (rule evaluate_row_risk)
qed

theorem process_bulk_components_risk_reduction_witness:
  "process_bulk_components ascii_db
     [[(u ''part_number'', PStr (u ''R1'')), (u ''value'', PInt 100)],
      [(u ''part_number'', PStr (u ''R2'')), (u ''value'', PInt 150)]]
     [[(u ''id'', PInt 7), (u ''value'', PInt 100)]]
     [(u ''value'', PStr (u ''100''))]
     [1, 0]
   = Inr [\<lparr>res_component = [(u ''part_number'', PStr (u ''R1'')), (u ''value'', PInt 100)],
           res_match = True,
           res_reason = u ''Component matches SAE specification: 7'',
           res_summary = u ''Component R1 meets all program and SAE specifications. Use is recommended with 100% risk coverage achieved. Reason: Component matches SAE specification: 7.'',
           res_alternatives = [],
           res_risk_reduction = 100\<rparr>,
          \<lparr>res_component = [(u ''part_number'', PStr (u ''R2'')), (u ''value'', PInt 150)],
           res_match = False,
           res_reason = u ''No SAE spec match found. Issues: Out of tolerance: value component=150 spec=100'',
           res_summary = u ''Component R2 does not meet required specifications. Risk coverage remains at 0%. Issues: No SAE spec match found. Issues: Out of tolerance: value component=150 spec=100.'',
           res_alternatives = [\<lparr>alt_spec = [(u ''id'', PInt 7), (u ''value'', PInt 100)],
                                alt_differences = [(u ''value'', PInt 150, PInt 100)]\<rparr>],
           res_risk_reduction = 0\<rparr>]"
  (is "?run = Inr ?results")
proof -
  have w1: "within_tolerance ascii_db (PStr [49, 48, 48]) (PStr [49, 48, 48]) default_tolerance = Inr True"
    by (simp add: str_eval parse_eval fl_eval tolerance_eval)
  have w2: "within_tolerance ascii_db (PStr [49, 48, 48]) (PStr [49, 53, 48]) default_tolerance = Inr False"
    by (simp add: str_eval parse_eval fl_eval tolerance_eval)
  have run: "?run = Inr ?results"
    by (simp add: bulk_eval matcher_eval str_eval py_str_def dec_digits.simps w1 w2)
  from process_bulk_components_risk_reduction [OF run] have
    "\<forall>r\<in>set ?results. (res_risk_reduction r = 100 \<longleftrightarrow> res_match r) \<and>
                         (\<not> res_match r \<longrightarrow> res_risk_reduction r = 0)" .
  with run show ?thesis by simp
qed

text \<open>
  C6.  \<open>within_tolerance\<close> never raises: every call returns a Boolean, and when
  \<open>float()\<close> fails on either argument, or the parsed expected value is zero (the division
  raises), the handler makes the result \<open>False\<close>.
\<close>

theorem within_tolerance_fail_closed:
  "(\<exists>b. within_tolerance ucd expected actual tolerance = Inr b) \<and>
   ((\<exists>e. py_float ucd expected = Inl e) \<or> (\<exists>e. py_float ucd actual = Inl e) \<or>
      py_float ucd expected = Inr (Fin 0)
    \<longrightarrow> within_tolerance ucd expected actual tolerance = Inr False)"
proof -
  have "within_tolerance ucd expected actual tolerance = Inr False"
    if "(\<exists>e. py_float ucd expected = Inl e) \<or> (\<exists>e. py_float ucd actual = Inl e) \<or>
          py_float ucd expected = Inr (Fin 0)"
    using that
    by (auto simp: within_tolerance_def within_tolerance_try_def split: sum.splits)
  then show ?thesis using within_tolerance_total by blast
qed

theorem within_tolerance_fail_closed_witness:
  "py_float ascii_db (PStr (u ''abc'')) = Inl ValueError \<and>
   within_tolerance ascii_db (PStr (u ''abc'')) (PStr (u ''1'')) default_tolerance = Inr False \<and>
   py_float ascii_db PNone = Inl TypeError \<and>
   within_tolerance ascii_db (PInt 1) PNone default_tolerance = Inr False \<and>
   py_float ascii_db (PStr (u ''0.0'')) = Inr (Fin 0) \<and>
   within_tolerance ascii_db (PStr (u ''0.0'')) (PStr (u ''0.0'')) default_tolerance = Inr False"
proof -
  have a: "py_float ascii_db (PStr (u ''abc'')) = Inl ValueError"
    by (simp add: str_eval parse_eval)
  have b: "py_float ascii_db PNone = Inl TypeError"
    by (simp add: py_float_def)
  have c: "py_float ascii_db (PStr (u ''0.0'')) = Inr (Fin 0)"
    by (simp add: str_eval parse_eval fl_eval)
  from a within_tolerance_fail_closed [of ascii_db "PStr (u ''abc'')" "PStr (u ''1'')" default_tolerance]
  have 1: "within_tolerance ascii_db (PStr (u ''abc'')) (PStr (u ''1'')) default_tolerance = Inr False"
    by blast
  from b within_tolerance_fail_closed [of ascii_db "PInt 1" PNone default_tolerance]
  have 2: "within_tolerance ascii_db (PInt 1) PNone default_tolerance = Inr False"
    by blast
  from c within_tolerance_fail_closed [of ascii_db "PStr (u ''0.0'')" "PStr (u ''0.0'')" default_tolerance]
  have 3: "within_tolerance ascii_db (PStr (u ''0.0'')) (PStr (u ''0.0'')) default_tolerance = Inr False"
    by blast
  from a b c 1 2 3 show ?thesis by blast
qed

text \<open>
  C7.  \<open>suggest_alternatives\<close> returns, in the order of the specifications, one candidate
  for each specification that differs from the component in at most two of the fields
  present in both, with the triples of field, raw component value and raw specification
  value; no candidate has three differences or more.
\<close>

theorem suggest_alternatives_candidates:
  "suggest_alternatives ucd component sae_specs
     = map (candidate_for ucd component) (filter (qualifies ucd component) sae_specs) \<and>
   (\<forall>c\<in>set (suggest_alternatives ucd component sae_specs). length (alt_differences c) \<le> 2)"
proof
  show eq: "suggest_alternatives ucd component sae_specs
              = map (candidate_for ucd component) (filter (qualifies ucd component) sae_specs)"
    by (rule suggest_alternatives_eq)
  show "\<forall>c\<in>set (suggest_alternatives ucd component sae_specs). length (alt_differences c) \<le> 2"
  proof
    fix c assume "c \<in> set (suggest_alternatives ucd component sae_specs)"
    then obtain spec where "qualifies ucd component spec" and "c = candidate_for ucd component spec"
      unfolding eq by auto
    then show "length (alt_differences c) \<le> 2"
      by (simp add: qualifies_def candidate_for_def)
  qed
qed

theorem suggest_alternatives_candidates_witness:
  "suggest_alternatives ascii_db
     [(u ''type'', PStr (u ''resistor'')), (u ''value'', PStr (u ''100'')), (u ''package'', PStr (u ''SMD''))]
     [[(u ''type'', PStr (u ''capacitor'')), (u ''value'', PStr (u ''220'')), (u ''package'', PStr (u ''THT''))],
      [(u ''type'', PStr (u ''capacitor'')), (u ''value'', PInt 100), (u ''package'', PStr (u ''THT''))]]
   = [\<lparr>alt_spec = [(u ''type'', PStr (u ''capacitor'')), (u ''value'', PInt 100), (u ''package'', PStr (u ''THT''))],
       alt_differences = [(u ''type'', PStr (u ''resistor''), PStr (u ''capacitor'')),
                          (u ''package'', PStr (u ''SMD''), PStr (u ''THT''))]\<rparr>]"
proof -
  let ?c = "[(u ''type'', PStr (u ''resistor'')), (u ''value'', PStr (u ''100'')), (u ''package'', PStr (u ''SMD''))]"
  let ?specs = "[[(u ''type'', PStr (u ''capacitor'')), (u ''value'', PStr (u ''220'')), (u ''package'', PStr (u ''THT''))],
      [(u ''type'', PStr (u ''capacitor'')), (u ''value'', PInt 100), (u ''package'', PStr (u ''THT''))]]"
  from suggest_alternatives_candidates [of ascii_db ?c ?specs]
  have "suggest_alternatives ascii_db ?c ?specs = map (candidate_for ascii_db ?c) (filter (qualifies ascii_db ?c) ?specs)"
    by blast
  then show ?thesis
    by (simp add: candidate_for_def qualifies_def spec_differences_def str_eval dec_digits.simps)
qed

text \<open>The next instance has the same outcome under every database.\<close>

lemma raises_without_specs_any_db:
  "process_bulk_components ucd
     [[(u ''part_number'', PStr (u ''R1'')), (u ''type'', PStr (u ''resistor''))]]
     []
     [(u ''type'', PStr (u ''resistor''))]
     [0]
   = Inl UnboundLocalError"
  by (simp add: process_bulk_components_def executor_map_def run_task_def evaluate_row_def
        match_component_to_spec_def)

text \<open>
  C8.  With an empty sequence of specifications the Matcher reads \<open>reasons\<close> before any
  assignment, the first row raises \<open>UnboundLocalError\<close>, and \<open>process_bulk_components\<close>
  returns no result at all: here for a table of one row, the task completed.
\<close>

theorem process_bulk_components_raises_without_specs:
  "process_bulk_components ascii_db
     [[(u ''part_number'', PStr (u ''R1'')), (u ''type'', PStr (u ''resistor''))]]
     []
     [(u ''type'', PStr (u ''resistor''))]
     [0]
   = Inl UnboundLocalError"
  by (rule raises_without_specs_any_db)

text \<open>
  C9 (as amended).  Loading a program after saving it returns the saved object with
  every tuple replaced by the list of its elements, whatever files were there before;
  this is the saved object itself exactly when it contains no tuple.
\<close>

theorem load_program_data_after_save:
  "load_program_data program_name (save_program_data program_name saved fs) = tuples_as_lists saved \<and>
   (tuples_as_lists saved = saved \<longleftrightarrow> \<not> has_tuple saved)"
proof
  have "load_program_data program_name (save_program_data program_name saved fs)
          = json_decode (json_encode saved)"
    by (rule load_save)
  also have "\<dots> = tuples_as_lists saved"
    by (rule json_roundtrip)
  finally show "load_program_data program_name (save_program_data program_name saved fs)
                  = tuples_as_lists saved" .
  show "tuples_as_lists saved = saved \<longleftrightarrow> \<not> has_tuple saved"
    by (rule tuples_as_lists_fixed)
qed

text \<open>The next instance has the same outcome under every database.\<close>

lemma saved_result_differs_any_db:
  "process_bulk_components ucd
     [[(u ''type'', PStr (u ''resistor''))]]
     [[(u ''type'', PStr (u ''capacitor''))]]
     [(u ''type'', PStr (u ''resistor''))]
     [0]
   = Inr [\<lparr>res_component = [(u ''type'', PStr (u ''resistor''))],
           res_match = False,
           res_reason = u ''No SAE spec match found. Issues: Mismatch: user required type = resistor, SAE has capacitor'',
           res_summary = u ''Component N/A does not meet required specifications. Risk coverage remains at 0%. Issues: No SAE spec match found. Issues: Mismatch: user required type = resistor, SAE has capacitor.'',
           res_alternatives =
             [\<lparr>alt_spec = [(u ''type'', PStr (u ''capacitor''))],
               alt_differences = [(u ''type'', PStr (u ''resistor''), PStr (u ''capacitor''))]\<rparr>],
           res_risk_reduction = 0\<rparr>] \<and>
   load_program_data (u ''demo_program'')
     (save_program_data (u ''demo_program'')
        (results_data
           [\<lparr>res_component = [(u ''type'', PStr (u ''resistor''))],
             res_match = False,
             res_reason = u ''No SAE spec match found. Issues: Mismatch: user required type = resistor, SAE has capacitor'',
             res_summary = u ''Component N/A does not meet required specifications. Risk coverage remains at 0%. Issues: No SAE spec match found. Issues: Mismatch: user required type = resistor, SAE has capacitor.'',
             res_alternatives =
               [\<lparr>alt_spec = [(u ''type'', PStr (u ''capacitor''))],
                 alt_differences = [(u ''type'', PStr (u ''resistor''), PStr (u ''capacitor''))]\<rparr>],
             res_risk_reduction = 0\<rparr>])
        [])
   \<noteq> results_data
        [\<lparr>res_component = [(u ''type'', PStr (u ''resistor''))],
          res_match = False,
          res_reason = u ''No SAE spec match found. Issues: Mismatch: user required type = resistor, SAE has capacitor'',
          res_summary = u ''Component N/A does not meet required specifications. Risk coverage remains at 0%. Issues: No SAE spec match found. Issues: Mismatch: user required type = resistor, SAE has capacitor.'',
          res_alternatives =
            [\<lparr>alt_spec = [(u ''type'', PStr (u ''capacitor''))],
              alt_differences = [(u ''type'', PStr (u ''resistor''), PStr (u ''capacitor''))]\<rparr>],
          res_risk_reduction = 0\<rparr>]"
  by (simp add: bulk_eval matcher_eval str_eval py_str_def store_eval)

text \<open>
  C9, counterexample: the result of a run on one component that no specification matches
  holds a difference, which is a tuple; what is loaded after saving this result is not
  equal to it.
\<close>

theorem load_program_data_after_save_differs:
  "process_bulk_components ascii_db
     [[(u ''type'', PStr (u ''resistor''))]]
     [[(u ''type'', PStr (u ''capacitor''))]]
     [(u ''type'', PStr (u ''resistor''))]
     [0]
   = Inr [\<lparr>res_component = [(u ''type'', PStr (u ''resistor''))],
           res_match = False,
           res_reason = u ''No SAE spec match found. Issues: Mismatch: user required type = resistor, SAE has capacitor'',
           res_summary = u ''Component N/A does not meet required specifications. Risk coverage remains at 0%. Issues: No SAE spec match found. Issues: Mismatch: user required type = resistor, SAE has capacitor.'',
           res_alternatives =
             [\<lparr>alt_spec = [(u ''type'', PStr (u ''capacitor''))],
               alt_differences = [(u ''type'', PStr (u ''resistor''), PStr (u ''capacitor''))]\<rparr>],
           res_risk_reduction = 0\<rparr>] \<and>
   load_program_data (u ''demo_program'')
     (save_program_data (u ''demo_program'')
        (results_data
           [\<lparr>res_component = [(u ''type'', PStr (u ''resistor''))],
             res_match = False,
             res_reason = u ''No SAE spec match found. Issues: Mismatch: user required type = resistor, SAE has capacitor'',
             res_summary = u ''Component N/A does not meet required specifications. Risk coverage remains at 0%. Issues: No SAE spec match found. Issues: Mismatch: user required type = resistor, SAE has capacitor.'',
             res_alternatives =
               [\<lparr>alt_spec = [(u ''type'', PStr (u ''capacitor''))],
                 alt_differences = [(u ''type'', PStr (u ''resistor''), PStr (u ''capacitor''))]\<rparr>],
             res_risk_reduction = 0\<rparr>])
        [])
   \<noteq> results_data
        [\<lparr>res_component = [(u ''type'', PStr (u ''resistor''))],
          res_match = False,
          res_reason = u ''No SAE spec match found. Issues: Mismatch: user required type = resistor, SAE has capacitor'',
          res_summary = u ''Component N/A does not meet required specifications. Risk coverage remains at 0%. Issues: No SAE spec match found. Issues: Mismatch: user required type = resistor, SAE has capacitor.'',
          res_alternatives =
            [\<lparr>alt_spec = [(u ''type'', PStr (u ''capacitor''))],
              alt_differences = [(u ''type'', PStr (u ''resistor''), PStr (u ''capacitor''))]\<rparr>],
          res_risk_reduction = 0\<rparr>]"
  by (rule saved_result_differs_any_db)

text \<open>
  C10 (as amended).  When the expected value parses to a finite float below zero, the
  actual value parses to a float that is not NaN, and the tolerance is at least zero,
  \<open>within_tolerance\<close> returns \<open>True\<close> whatever the distance: the quotient
  \<open>abs(expected - actual) / expected\<close> is zero, negative or minus infinity.
\<close>

theorem within_tolerance_negative_expected:
  assumes "py_float ucd expected = Inr (Fin e)" and "e < 0"
    and "py_float ucd actual = Inr a" and "a \<noteq> NaN"
    and "fle (Fin 0) tolerance"
  shows "within_tolerance ucd expected actual tolerance = Inr True"
proof -
  have "fsub (Fin e) a \<noteq> NaN"
    using assms(4) fl_not_nan by (cases a) auto
  then obtain c where
    c: "fabs (fsub (Fin e) a) = PInf \<or> (0 \<le> c \<and> fabs (fsub (Fin e) a) = Fin c)"
    by (cases "fsub (Fin e) a") auto
  obtain r where r: "fdiv (fabs (fsub (Fin e) a)) (Fin e) = Inr r"
    and rn: "r = NInf \<or> (\<exists>x\<le>0. r = Fin x)"
  proof (cases "fabs (fsub (Fin e) a) = PInf")
    case True
    then show ?thesis using that assms(2) by simp
  next
    case False
    with c have c0: "0 \<le> c" and fc: "fabs (fsub (Fin e) a) = Fin c" by auto
    have "c / e \<le> 0" using c0 assms(2) by (simp add: divide_nonneg_neg)
    from fl_nonpos [OF this] show ?thesis using that fc assms(2) by auto
  qed
  have "fle r tolerance" using rn assms(5) by (cases tolerance) auto
  then show ?thesis
    using assms(1,3) r by (simp add: within_tolerance_def within_tolerance_try_def)
qed

theorem within_tolerance_negative_expected_witness:
  "py_float ascii_db (PStr (u ''-5'')) = Inr (Fin (- 5)) \<and> (- 5 :: rat) < 0 \<and>
   py_float ascii_db (PStr (u ''1000'')) = Inr (Fin 1000) \<and> Fin 1000 \<noteq> NaN \<and>
   fle (Fin 0) default_tolerance \<and>
   within_tolerance ascii_db (PStr (u ''-5'')) (PStr (u ''1000'')) default_tolerance = Inr True"
proof -
  have a: "py_float ascii_db (PStr (u ''-5'')) = Inr (Fin (- 5))"
    by (simp add: str_eval parse_eval fl_eval)
  have b: "(- 5 :: rat) < 0" by simp
  have c: "py_float ascii_db (PStr (u ''1000'')) = Inr (Fin 1000)"
    by (simp add: str_eval parse_eval fl_eval)
  have d: "Fin 1000 \<noteq> NaN" by simp
  have t: "fle (Fin 0) default_tolerance"
    by (simp add: default_tolerance_def fl_eval)
  from a b c d t within_tolerance_negative_expected [OF a b c d t] show ?thesis by blast
qed

text \<open>The next instance has the same outcome under every database.\<close>

lemma negative_infinity_any_db:
  "py_float ucd (PStr (u ''-inf'')) = Inr NInf \<and> fle NInf (Fin 0) \<and> \<not> fle (Fin 0) NInf \<and>
   py_float ucd (PStr (u ''1'')) = Inr (Fin 1) \<and>
   fle (Fin 0) default_tolerance \<and>
   within_tolerance ucd (PStr (u ''-inf'')) (PStr (u ''1'')) default_tolerance = Inr False"
  by (simp add: str_eval parse_eval fl_eval tolerance_eval)

text \<open>
  C10, counterexample: \<open>float("-inf")\<close> is a float below zero, and
  \<open>abs(-inf - 1.0) / -inf\<close> is NaN, which is not \<open>\<le> 0.05\<close>; the call returns \<open>False\<close>.
\<close>

theorem within_tolerance_negative_infinity:
  "py_float ascii_db (PStr (u ''-inf'')) = Inr NInf \<and> fle NInf (Fin 0) \<and> \<not> fle (Fin 0) NInf \<and>
   py_float ascii_db (PStr (u ''1'')) = Inr (Fin 1) \<and>
   fle (Fin 0) default_tolerance \<and>
   within_tolerance ascii_db (PStr (u ''-inf'')) (PStr (u ''1'')) default_tolerance = Inr False"
  by (rule negative_infinity_any_db)

end
